theory Spec2Isabelle
  imports Main "HOL-Library.Sublist" "HOL-Library.AList"
begin

unbundle bit_operations_syntax

section \<open>Python values, exceptions and observable effects\<close>

text \<open>
  Strings are byte lists. JSON values as the REST backend and the webhook events carry
  them (floating point numbers are left out: no modelled function reads one).
\<close>

datatype json =
    JNull
  | JBool bool
  | JInt int
  | JStr string
  | JList "json list"
  | JObj "(string \<times> json) list"

text \<open>
  Exceptions are values. \<open>ClientError\<close> is a failure of the HTTP transport. The last
  six are the classes of \<^verbatim>\<open>gidgethub\<close>, each carrying the HTTP status of the
  response it was raised for: \<^verbatim>\<open>BadRequest\<close>, \<^verbatim>\<open>RateLimitExceeded\<close> and
  \<^verbatim>\<open>InvalidField\<close> are the client-error family (the latter two are subclasses
  of \<^verbatim>\<open>BadRequest\<close>).
\<close>

datatype exn =
    KeyError string
  | IndexError
  | TypeError
  | AttributeError
  | ValueError string
  | RuntimeError string
  | UnicodeDecodeError
  | FileNotFoundError string
  | GitCommandError
  | GitHandlerFailure string
  | ClientError
  | HTTPException nat
  | RedirectionException nat
  | BadRequest nat
  | RateLimitExceeded nat
  | InvalidField nat
  | GitHubBroken nat

datatype level = DEBUG | INFO | WARNING | ERROR

text \<open>
  A logging call is recorded as its level, its format string and its arguments;
  \<open>AQuot a b\<close> is the true quotient \<^verbatim>\<open>a / b\<close> passed unevaluated.
\<close>

datatype log_arg = AStr string | AInt int | AJson json | AQuot int int

type_synonym log_entry = "level \<times> string \<times> log_arg list"

datatype http_verb = GET | POST | PATCH

record request =
  verb :: http_verb
  url :: string
  url_vars :: "(string \<times> json) list"
  payload :: "json option"
  accept :: "string option"
  auth_jwt :: "string option"
  auth_oauth :: "string option"

text \<open>
  Everything a call does to the outside: the log records written, the REST requests
  issued and the refspecs pushed (remote name, refspec), each in order.
\<close>

record world =
  logs :: "log_entry list"
  requests :: "request list"
  pushes :: "(string \<times> string) list"

definition log_msg :: "level \<Rightarrow> string \<Rightarrow> log_arg list \<Rightarrow> world \<Rightarrow> world" where
  "log_msg lv fmt args w = w\<lparr>logs := logs w @ [(lv, fmt, args)]\<rparr>"

definition send :: "request \<Rightarrow> world \<Rightarrow> world" where
  "send rq w = w\<lparr>requests := requests w @ [rq]\<rparr>"

section \<open>String operations of Python\<close>

text \<open>\<^verbatim>\<open>sub in s\<close> on strings: \<open>sub\<close> occurs contiguously in \<open>s\<close>.\<close>

fun str_in :: "string \<Rightarrow> string \<Rightarrow> bool" where
  "str_in sub [] = (sub = [])"
| "str_in sub (c # cs) = (prefix sub (c # cs) \<or> str_in sub cs)"

definition startswith :: "string \<Rightarrow> string \<Rightarrow> bool" where
  "startswith s p = prefix p s"

definition endswith :: "string \<Rightarrow> string \<Rightarrow> bool" where
  "endswith s p = suffix p s"

text \<open>\<^verbatim>\<open>s.split(sep)\<close> for a one-character separator.\<close>

fun split_on :: "char \<Rightarrow> string \<Rightarrow> string list" where
  "split_on sep [] = [[]]"
| "split_on sep (c # cs) =
     (if c = sep then [] # split_on sep cs
      else (case split_on sep cs of
              [] \<Rightarrow> [[c]]
            | w # ws \<Rightarrow> (c # w) # ws))"

text \<open>\<^verbatim>\<open>sep.join(xs)\<close>.\<close>

fun join_with :: "string \<Rightarrow> string list \<Rightarrow> string" where
  "join_with sep [] = []"
| "join_with sep [x] = x"
| "join_with sep (x # y # ys) = x @ sep @ join_with sep (y # ys)"

definition lstrip :: "char \<Rightarrow> string \<Rightarrow> string" where
  "lstrip ch s = dropWhile (\<lambda>c. c = ch) s"

text \<open>\<^verbatim>\<open>bytes.decode('ascii')\<close>: every byte below 128, else the decode error.\<close>

definition decode_ascii :: "string \<Rightarrow> exn + string" where
  "decode_ascii bs =
     (if list_all (\<lambda>c. (of_char c :: nat) < 128) bs then Inr bs else Inl UnicodeDecodeError)"

text \<open>
  \<^verbatim>\<open>bytes.decode('utf-8')\<close>: the well-formed byte sequences of UTF-8 (no overlong
  form, no surrogate, nothing above U+10FFFF) decode to the text they encode, which
  the model keeps as the same bytes.
\<close>

definition cont :: "nat \<Rightarrow> bool" where
  "cont b = (128 \<le> b \<and> b \<le> 191)"

fun utf8_valid :: "nat list \<Rightarrow> bool" where
  "utf8_valid [] = True"
| "utf8_valid (b # bs) =
     (if b < 128 then utf8_valid bs
      else if 194 \<le> b \<and> b \<le> 223 then
        (case bs of c1 # r \<Rightarrow> cont c1 \<and> utf8_valid r | _ \<Rightarrow> False)
      else if 224 \<le> b \<and> b \<le> 239 then
        (case bs of
           c1 # c2 # r \<Rightarrow>
             (if b = 224 then 160 \<le> c1 \<and> c1 \<le> 191
              else if b = 237 then 128 \<le> c1 \<and> c1 \<le> 159
              else cont c1) \<and> cont c2 \<and> utf8_valid r
         | _ \<Rightarrow> False)
      else if 240 \<le> b \<and> b \<le> 244 then
        (case bs of
           c1 # c2 # c3 # r \<Rightarrow>
             (if b = 240 then 144 \<le> c1 \<and> c1 \<le> 191
              else if b = 244 then 128 \<le> c1 \<and> c1 \<le> 143
              else cont c1) \<and> cont c2 \<and> cont c3 \<and> utf8_valid r
         | _ \<Rightarrow> False)
      else False)"

definition decode_utf8 :: "string \<Rightarrow> exn + string" where
  "decode_utf8 bs = (if utf8_valid (map of_char bs) then Inr bs else Inl UnicodeDecodeError)"

text \<open>\<^verbatim>\<open>str(n)\<close> for an integer.\<close>

fun digits :: "nat \<Rightarrow> string" where
  "digits n =
     (if n < 10 then [''0123456789'' ! n]
      else digits (n div 10) @ [''0123456789'' ! (n mod 10)])"

definition str_of_int :: "int \<Rightarrow> string" where
  "str_of_int i = (if i < 0 then CHR ''-'' # digits (nat (- i)) else digits (nat i))"

text \<open>Truth value of an optional string: \<^verbatim>\<open>None\<close> and the empty string are false.\<close>

fun truthy :: "string option \<Rightarrow> bool" where
  "truthy None = False"
| "truthy (Some s) = (s \<noteq> [])"

text \<open>\<^verbatim>\<open>any(xs)\<close> over strings: some element is non-empty.\<close>

definition any_py :: "string list \<Rightarrow> bool" where
  "any_py xs = list_ex (\<lambda>x. x \<noteq> []) xs"

section \<open>POSIX paths (\<^verbatim>\<open>os.path\<close>)\<close>

text \<open>
  \<^verbatim>\<open>posixpath.normpath\<close>: empty and \<^verbatim>\<open>.\<close> components are dropped, a
  \<^verbatim>\<open>..\<close> removes the component before it (or is dropped at the root), and exactly
  two leading slashes are kept.
\<close>

fun norm_comps :: "nat \<Rightarrow> string list \<Rightarrow> string list \<Rightarrow> string list" where
  "norm_comps initial_slashes new_comps [] = new_comps"
| "norm_comps initial_slashes new_comps (cmp # comps) =
     (if cmp = [] \<or> cmp = ''.'' then norm_comps initial_slashes new_comps comps
      else if cmp \<noteq> ''..'' \<or> (initial_slashes = 0 \<and> new_comps = [])
                \<or> (new_comps \<noteq> [] \<and> last new_comps = ''..'')
        then norm_comps initial_slashes (new_comps @ [cmp]) comps
      else if new_comps \<noteq> [] then norm_comps initial_slashes (butlast new_comps) comps
      else norm_comps initial_slashes new_comps comps)"

definition normpath :: "string \<Rightarrow> string" where
  "normpath path =
     (if path = [] then ''.''
      else
        let initial_slashes =
              (if startswith path ''/'' then
                 (if startswith path ''//'' \<and> \<not> startswith path ''///'' then 2 else 1)
               else (0::nat));
            comps = norm_comps initial_slashes [] (split_on CHR ''/'' path);
            p = replicate initial_slashes CHR ''/'' @ join_with ''/'' comps
        in if p = [] then ''.'' else p)"

definition path_join :: "string \<Rightarrow> string \<Rightarrow> string" where
  "path_join a b =
     (if startswith b ''/'' then b
      else if a = [] \<or> endswith a ''/'' then a @ b
      else a @ ''/'' @ b)"

text \<open>\<^verbatim>\<open>os.path.abspath\<close>, with the process's working directory as a parameter.\<close>

definition abspath :: "string \<Rightarrow> string \<Rightarrow> string" where
  "abspath cwd path =
     normpath (if \<not> startswith path ''/'' then path_join cwd path else path)"

section \<open>The git handler (\<^verbatim>\<open>githandler.py\<close>)\<close>

type_synonym files = "(string \<times> string) list"

record remote =
  name :: string
  urls :: "string list"

text \<open>
  A branch: its name (\<^verbatim>\<open>branch.name\<close>) and the tree of its commit
  (\<^verbatim>\<open>branch.commit.tree\<close>), from path to blob.
\<close>

record branch =
  branch_name :: string
  commit_tree :: files

text \<open>
  The repository as the handler uses it: the files on disk, the index, and the
  commits of the checked-out branch (message and tree), newest first.
\<close>

record repo =
  working_dir :: string
  remotes :: "remote list"
  worktree :: files
  index :: files
  commits :: "(string \<times> files) list"

record git_handler =
  repo :: repo
  dry_run :: bool
  home_remote :: remote
  fork_remote :: remote

text \<open>
  The result of pushing one ref: GitPython's \<^verbatim>\<open>PushInfo\<close>, whose flags are
  bits (\<^verbatim>\<open>NEW_HEAD\<close> is bit 1 and \<^verbatim>\<open>FAST_FORWARD\<close> bit 8).
\<close>

record push_info =
  flags :: int
  summary :: string

definition NEW_HEAD :: int where
  "NEW_HEAD = 2"

definition FAST_FORWARD :: int where
  "FAST_FORWARD = 256"

text \<open>
  What the git backend answers: whether \<^verbatim>\<open>git commit -S -m msg\<close> succeeds, and
  the list of results for a push of a refspec to a remote.
\<close>

record git_backend =
  commit_signed :: "string \<Rightarrow> bool"
  push_result :: "remote \<Rightarrow> string \<Rightarrow> push_info list"

definition get_remote :: "repo \<Rightarrow> string \<Rightarrow> exn + remote" where
  "get_remote rp desc =
     (if desc \<in> set (map name (remotes rp)) then
        (case find (\<lambda>r. name r = desc) (remotes rp) of
           Some r \<Rightarrow> Inr r
         | None \<Rightarrow> Inl IndexError)
      else
        (case filter (\<lambda>r. any_py (filter (\<lambda>x. str_in desc x) (urls r))) (remotes rp) of
           [] \<Rightarrow> Inl (KeyError (''No remote matching '' @ [CHR 0x27] @ desc @ [CHR 0x27] @ '' found''))
         | r # _ \<Rightarrow> Inr r))"

text \<open>
  The command line of the subprocess that \<open>branch_is_current\<close> starts; \<open>run\<close> gives
  the bytes it writes to its standard output.
\<close>

definition log_argv :: "string \<Rightarrow> string \<Rightarrow> string \<Rightarrow> string list" where
  "log_argv master bname path =
     [''git'', ''log'', ''-1'', ''--oneline'', ''--decorate'',
      master @ ''...'' @ bname, ''--'', path]"

definition branch_is_current ::
  "(string list \<Rightarrow> string) \<Rightarrow> branch \<Rightarrow> string \<Rightarrow> string \<Rightarrow> exn + bool" where
  "branch_is_current run br path master =
     (case decode_ascii (run (log_argv master (branch_name br) path)) of
        Inl e \<Rightarrow> Inl e
      | Inr out \<Rightarrow> Inr (str_in (branch_name br) out))"

definition delete_remote_branch :: "git_handler \<Rightarrow> string \<Rightarrow> world \<Rightarrow> world" where
  "delete_remote_branch self bname w =
     (if \<not> dry_run self then
        (let w1 = log_msg INFO ''Deleting branch %s'' [AStr bname] w
         in w1\<lparr>pushes := pushes w1 @ [(name (fork_remote self), '':'' @ bname)]\<rparr>)
      else log_msg INFO ''Would delete branch %s'' [AStr bname] w)"

definition read_from_branch :: "string \<Rightarrow> git_handler \<Rightarrow> branch \<Rightarrow> string \<Rightarrow> exn + string" where
  "read_from_branch cwd self br file_name =
     (let abs_file_name = abspath cwd file_name;
          abs_repo_root = abspath cwd (working_dir (repo self))
      in if \<not> startswith abs_file_name abs_repo_root then
           Inl (RuntimeError (''File '' @ abs_file_name @ '' not inside '' @ abs_repo_root))
         else
           (let rel_file_name = lstrip CHR ''/'' (drop (length abs_repo_root) abs_file_name)
            in case map_of (commit_tree br) rel_file_name of
                 None \<Rightarrow> Inl (KeyError rel_file_name)
               | Some blob \<Rightarrow> decode_utf8 blob))"

text \<open>\<^verbatim>\<open>index.add(files)\<close>: each file's content on disk replaces its index entry.\<close>

fun index_add :: "files \<Rightarrow> files \<Rightarrow> string list \<Rightarrow> exn + files" where
  "index_add wt idx [] = Inr idx"
| "index_add wt idx (f # fs) =
     (case map_of wt f of
        None \<Rightarrow> Inl (FileNotFoundError f)
      | Some c \<Rightarrow> index_add wt (AList.update f c idx) fs)"

text \<open>\<^verbatim>\<open>index.diff("HEAD")\<close>: the paths whose index entry differs from the tree's.\<close>

definition index_diff :: "files \<Rightarrow> files \<Rightarrow> string list" where
  "index_diff idx tr =
     filter (\<lambda>p. map_of idx p \<noteq> map_of tr p) (remdups (map fst idx @ map fst tr))"

text \<open>
  The files are staged first. A repository without a commit has no HEAD to compare with,
  and the comparison fails. A signed commit goes through the command line, which may
  fail; the push is recorded with the remote's answer, whose first entry decides.
\<close>

definition commit_and_push_changes ::
  "git_backend \<Rightarrow> git_handler \<Rightarrow> string list \<Rightarrow> string \<Rightarrow> string \<Rightarrow> bool \<Rightarrow> world
     \<Rightarrow> (exn + bool) \<times> git_handler \<times> world" where
  "commit_and_push_changes git self files bname msg sign w =
     (case index_add (worktree (repo self)) (index (repo self)) files of
        Inl e \<Rightarrow> (Inl e, self, w)
      | Inr idx \<Rightarrow>
          (let self1 = self\<lparr>repo := (repo self)\<lparr>index := idx\<rparr>\<rparr>
           in case commits (repo self1) of
                [] \<Rightarrow> (Inl GitCommandError, self1, w)
              | hd_commit # _ \<Rightarrow>
                  if index_diff idx (snd hd_commit) = [] then (Inr False, self1, w)
                  else if sign \<and> \<not> commit_signed git msg then (Inl GitCommandError, self1, w)
                  else
                    (let self2 = self1\<lparr>repo := (repo self1)\<lparr>commits := (msg, idx) # commits (repo self1)\<rparr>\<rparr>
                     in if \<not> dry_run self then
                          (let w1 = log_msg INFO ''Pushing branch %s'' [AStr bname] w;
                               res = push_result git (fork_remote self) bname;
                               w2 = w1\<lparr>pushes := pushes w1 @ [(name (fork_remote self), bname)]\<rparr>
                           in case res of
                                [] \<Rightarrow> (Inl IndexError, self2, w2)
                              | info # _ \<Rightarrow>
                                  if flags info AND NOT (FAST_FORWARD OR NEW_HEAD) \<noteq> 0 then
                                    (Inl (GitHandlerFailure (summary info)), self2,
                                     log_msg ERROR ''Failed to push branch %s: %s''
                                       [AStr bname, AStr (summary info)] w2)
                                  else (Inr True, self2, w2))
                        else
                          (Inr True, self2,
                           log_msg INFO ''Would push branch %s'' [AStr bname] w))))"

section \<open>The GitHub handler (\<^verbatim>\<open>githubhandler.py\<close>)\<close>

text \<open>
  The \<^verbatim>\<open>gidgethub\<close> API object a handler wraps after \<^verbatim>\<open>create_api_object\<close>:
  who is asking, and the OAUTH token its requests carry.
\<close>

record api_object =
  requester :: string
  oauth_token :: "string option"

record github_handler =
  token :: string
  dry_run :: bool
  var_default :: "(string \<times> json) list"
  api :: "api_object option"
  username :: "string option"

definition PULLS :: string where
  "PULLS = ''/repos/{user}/{repo}/pulls{/number}{?head,base,state}''"

definition ISSUES :: string where
  "ISSUES = ''/repos/{user}/{repo}/issues{/number}''"

definition COMMENTS :: string where
  "COMMENTS = ''/repos/{user}/{repo}/issues/{number}/comments''"


definition GitHubHandler :: "string \<Rightarrow> bool \<Rightarrow> json \<Rightarrow> json \<Rightarrow> github_handler" where
  "GitHubHandler tok dry to_user to_repo =
     \<lparr>token = tok, dry_run = dry,
      var_default = [(''user'', to_user), (''repo'', to_repo)],
      api = None, username = None\<rparr>"

definition set_oauth_token :: "github_handler \<Rightarrow> string \<Rightarrow> exn + github_handler" where
  "set_oauth_token self tok =
     (case api self of
        None \<Rightarrow> Inl AttributeError
      | Some a \<Rightarrow> Inr (self\<lparr>api := Some (a\<lparr>oauth_token := Some tok\<rparr>)\<rparr>))"

text \<open>\<^verbatim>\<open>AiohttpGitHubHandler.create_api_object\<close>.\<close>

definition create_api_object :: "github_handler \<Rightarrow> string \<Rightarrow> github_handler" where
  "create_api_object self rqr =
     self\<lparr>api := Some \<lparr>requester = rqr, oauth_token = Some (token self)\<rparr>\<rparr>"

text \<open>
  \<^verbatim>\<open>isinstance(e, gidgethub.BadRequest)\<close>, and the class \<^verbatim>\<open>gidgethub\<close> raises
  for a response that is not a success, by its status (a 403 with the rate limit used up
  and a 422 naming fields raise the two subclasses of \<^verbatim>\<open>BadRequest\<close> instead).
\<close>

fun is_BadRequest :: "exn \<Rightarrow> bool" where
  "is_BadRequest (BadRequest st) = True"
| "is_BadRequest (RateLimitExceeded st) = True"
| "is_BadRequest (InvalidField st) = True"
| "is_BadRequest e = False"


text \<open>A request through the handler's API object; without one the attribute access fails.\<close>

definition api_request ::
  "github_handler \<Rightarrow> http_verb \<Rightarrow> string \<Rightarrow> (string \<times> json) list \<Rightarrow> json option
     \<Rightarrow> exn + request" where
  "api_request self v u vars dat =
     (case api self of
        None \<Rightarrow> Inl AttributeError
      | Some a \<Rightarrow>
          Inr \<lparr>verb = v, url = u, url_vars = vars, payload = dat, accept = None,
               auth_jwt = None, auth_oauth = oauth_token a\<rparr>)"

definition getitem :: "(string \<times> json) list \<Rightarrow> string \<Rightarrow> exn + json" where
  "getitem d k = (case map_of d k of None \<Rightarrow> Inl (KeyError k) | Some v \<Rightarrow> Inr v)"


text \<open>The formatted value of an optional string in an f-string.\<close>

fun fmt_opt :: "string option \<Rightarrow> string" where
  "fmt_opt None = ''None''"
| "fmt_opt (Some s) = s"

definition pr_data ::
  "github_handler \<Rightarrow> string \<Rightarrow> string option \<Rightarrow> string option \<Rightarrow> string option
     \<Rightarrow> string option \<Rightarrow> bool \<Rightarrow> (string \<times> json) list" where
  "pr_data self title from_branch from_user to_branch body maintainer_can_modify =
     (let from_user1 = (if \<not> truthy from_user then username self else from_user);
          data0 = [(''title'', JStr title), (''body'', JStr []),
                   (''maintainer_can_modify'', JBool maintainer_can_modify)];
          data1 = (if truthy body then AList.update ''body'' (JStr ([] @ fmt_opt body)) data0
                   else data0);
          data2 = (if truthy from_branch then
                     (if truthy from_user1 \<and> from_user1 \<noteq> username self then
                        AList.update ''head''
                          (JStr (fmt_opt from_user1 @ '':'' @ fmt_opt from_branch)) data1
                      else AList.update ''head'' (JStr (fmt_opt from_branch)) data1)
                   else data1)
      in if truthy to_branch then AList.update ''base'' (JStr (fmt_opt to_branch)) data2
         else data2)"

definition create_pr ::
  "(request \<Rightarrow> exn + json) \<Rightarrow> github_handler \<Rightarrow> string \<Rightarrow> string option \<Rightarrow> string option
     \<Rightarrow> string option \<Rightarrow> string option \<Rightarrow> bool \<Rightarrow> world \<Rightarrow> (exn + json) \<times> world" where
  "create_pr http self title from_branch from_user to_branch body maintainer_can_modify w =
     (let var_data = var_default self;
          data = pr_data self title from_branch from_user to_branch body maintainer_can_modify;
          w1 = log_msg DEBUG ''PR data %s'' [AJson (JObj data)] w
      in if dry_run self then
           (Inr (JObj [(''number'', JInt (- 1))]),
            log_msg INFO (''Would create PR '' @ [CHR 0x27] @ ''%s'' @ [CHR 0x27]) [AStr title] w1)
         else
           (let w2 = log_msg INFO (''Creating PR '' @ [CHR 0x27] @ ''%s'' @ [CHR 0x27])
                       [AStr title] w1
            in case api_request self POST PULLS var_data (Some (JObj data)) of
                 Inl e \<Rightarrow> (Inl e, w2)
               | Inr rq \<Rightarrow> (http rq, send rq w2)))"

definition modify_issue ::
  "(request \<Rightarrow> exn + json) \<Rightarrow> github_handler \<Rightarrow> int \<Rightarrow> string list option \<Rightarrow> string option
     \<Rightarrow> string option \<Rightarrow> world \<Rightarrow> (exn + json) \<times> world" where
  "modify_issue http self number labels title body w =
     (let var_data = AList.update ''number'' (JStr (str_of_int number)) (var_default self);
          has_labels = (case labels of None \<Rightarrow> False | Some ls \<Rightarrow> ls \<noteq> []);
          data0 = (if has_labels then [(''labels'', JList (map JStr (the labels)))] else []);
          data1 = (if truthy title then AList.update ''title'' (JStr (fmt_opt title)) data0
                   else data0);
          data = (if truthy body then AList.update ''body'' (JStr (fmt_opt body)) data1
                  else data1)
      in if dry_run self then
           (let w1 = log_msg INFO ''Would modify PR %s'' [AInt number] w;
                w2 = (if truthy title then log_msg INFO ''New title: %s'' [AStr (fmt_opt title)] w1
                      else w1);
                w3 = (if has_labels then
                        log_msg INFO ''New labels: %s'' [AJson (JList (map JStr (the labels)))] w2
                      else w2);
                w4 = (if truthy body then
                        log_msg INFO (''New Body:'' @ [CHR 0x0A] @ ''%s'' @ [CHR 0x0A])
                          [AStr (fmt_opt body)] w3
                      else w3)
            in (Inr (JObj [(''number'', JInt number)]), w4))
         else
           (let w1 = log_msg INFO ''Modifying PR %s'' [AInt number] w
            in case api_request self PATCH ISSUES var_data (Some (JObj data)) of
                 Inl e \<Rightarrow> (Inl e, w1)
               | Inr rq \<Rightarrow> (http rq, send rq w1)))"

text \<open>\<^verbatim>\<open>res['id']\<close> on the decoded response.\<close>

fun subscript :: "json \<Rightarrow> string \<Rightarrow> exn + json" where
  "subscript (JObj kvs) k = getitem kvs k"
| "subscript j k = Inl TypeError"

definition create_comment ::
  "(request \<Rightarrow> exn + json) \<Rightarrow> github_handler \<Rightarrow> int \<Rightarrow> string \<Rightarrow> world
     \<Rightarrow> (exn + json) \<times> world" where
  "create_comment http self number body w =
     (let var_data = AList.update ''number'' (JStr (str_of_int number)) (var_default self);
          data = [(''body'', JStr body)]
      in if dry_run self then
           (Inr (JInt (- 1)),
            log_msg INFO ''Would create comment on issue #%i'' [AInt number] w)
         else
           (let w1 = log_msg INFO ''Creating comment on issue #%i'' [AInt number] w
            in case api_request self POST COMMENTS var_data (Some (JObj data)) of
                 Inl e \<Rightarrow> (Inl e, w1)
               | Inr rq \<Rightarrow>
                   (case http rq of
                      Inl e \<Rightarrow> (Inl e, send rq w1)
                    | Inr res \<Rightarrow> (subscript res ''id'', send rq w1))))"

section \<open>Webhook events\<close>

record event =
  event_type :: string
  data :: json

text \<open>
  Subscripting down a path: only an object that has the key yields a value; a missing
  key and a value that cannot be subscripted by a string both end the lookup.
\<close>

fun walk :: "json \<Rightarrow> string list \<Rightarrow> json option" where
  "walk d [] = Some d"
| "walk (JObj kvs) (item # items) =
     (case map_of kvs item of None \<Rightarrow> None | Some v \<Rightarrow> walk v items)"
| "walk d (item # items) = None"

definition event_get :: "event \<Rightarrow> string \<Rightarrow> exn + json" where
  "event_get ev path =
     (case walk (data ev) (split_on CHR ''/'' path) of
        None \<Rightarrow>
          Inl (KeyError (''No '' @ [CHR 0x27] @ path @ [CHR 0x27] @ '' in event type ''
                         @ event_type ev))
      | Some d \<Rightarrow> Inr d)"

section \<open>Time stamps (\<^verbatim>\<open>time.strptime\<close>, \<^verbatim>\<open>time.mktime\<close>)\<close>

record struct_time =
  tm_year :: int
  tm_mon :: int
  tm_mday :: int
  tm_hour :: int
  tm_min :: int
  tm_sec :: int

text \<open>A character in the range of digits \<open>lo\<close> to \<open>hi\<close> (ASCII digits only).\<close>

definition dig :: "nat \<Rightarrow> nat \<Rightarrow> char \<Rightarrow> bool" where
  "dig lo hi c = (48 + lo \<le> of_char c \<and> (of_char c :: nat) \<le> 48 + hi)"

definition int_of_digits :: "string \<Rightarrow> int" where
  "int_of_digits s = foldl (\<lambda>a c. 10 * a + (int (of_char c) - 48)) 0 s"

text \<open>
  The patterns \<^verbatim>\<open>strptime\<close> matches the directives with:
  \<^verbatim>\<open>%Y\<close> is \<^verbatim>\<open>\d\d\d\d\<close>, \<^verbatim>\<open>%m\<close> is \<^verbatim>\<open>1[0-2]|0[1-9]|[1-9]\<close>,
  \<^verbatim>\<open>%d\<close> is \<^verbatim>\<open>3[0-1]|[1-2]\d|0[1-9]|[1-9]| [1-9]\<close>,
  \<^verbatim>\<open>%H\<close> is \<^verbatim>\<open>2[0-3]|[0-1]\d|\d\<close>, \<^verbatim>\<open>%M\<close> is \<^verbatim>\<open>[0-5]\d|\d\<close> and
  \<^verbatim>\<open>%S\<close> is \<^verbatim>\<open>6[0-1]|[0-5]\d|\d\<close>.
\<close>

fun re_Y :: "string \<Rightarrow> bool" where
  "re_Y [a, b, c, d] = (dig 0 9 a \<and> dig 0 9 b \<and> dig 0 9 c \<and> dig 0 9 d)"
| "re_Y s = False"

fun re_m :: "string \<Rightarrow> bool" where
  "re_m [a, b] = ((dig 1 1 a \<and> dig 0 2 b) \<or> (dig 0 0 a \<and> dig 1 9 b))"
| "re_m [a] = dig 1 9 a"
| "re_m s = False"

fun re_d :: "string \<Rightarrow> bool" where
  "re_d [a, b] =
     ((dig 3 3 a \<and> dig 0 1 b) \<or> (dig 1 2 a \<and> dig 0 9 b) \<or> (dig 0 0 a \<and> dig 1 9 b)
      \<or> (a = CHR '' '' \<and> dig 1 9 b))"
| "re_d [a] = dig 1 9 a"
| "re_d s = False"

fun re_H :: "string \<Rightarrow> bool" where
  "re_H [a, b] = ((dig 2 2 a \<and> dig 0 3 b) \<or> (dig 0 1 a \<and> dig 0 9 b))"
| "re_H [a] = dig 0 9 a"
| "re_H s = False"

fun re_M :: "string \<Rightarrow> bool" where
  "re_M [a, b] = (dig 0 5 a \<and> dig 0 9 b)"
| "re_M [a] = dig 0 9 a"
| "re_M s = False"

fun re_S :: "string \<Rightarrow> bool" where
  "re_S [a, b] = ((dig 6 6 a \<and> dig 0 1 b) \<or> (dig 0 5 a \<and> dig 0 9 b))"
| "re_S [a] = dig 0 9 a"
| "re_S s = False"

text \<open>The pieces of a string between the characters that satisfy \<open>is_sep\<close>.\<close>

fun split_where :: "(char \<Rightarrow> bool) \<Rightarrow> string \<Rightarrow> string list" where
  "split_where is_sep [] = [[]]"
| "split_where is_sep (c # cs) =
     (if is_sep c then [] # split_where is_sep cs
      else (case split_where is_sep cs of
              [] \<Rightarrow> [[c]]
            | w # ws \<Rightarrow> (c # w) # ws))"

definition is_leap :: "int \<Rightarrow> bool" where
  "is_leap y = (y mod 4 = 0 \<and> (y mod 100 \<noteq> 0 \<or> y mod 400 = 0))"

definition days_in_month :: "int \<Rightarrow> int \<Rightarrow> int" where
  "days_in_month y m =
     (if m = 2 then (if is_leap y then 29 else 28)
      else if m = 4 \<or> m = 6 \<or> m = 9 \<or> m = 11 then 30
      else 31)"

text \<open>
  \<^verbatim>\<open>time.strptime(s, "%Y-%m-%dT%H:%M:%S")\<close>: the fields between the literal
  separators (the match ignores case, so the \<^verbatim>\<open>T\<close> may be \<^verbatim>\<open>t\<close>) must each
  match their directive with nothing left over, and the date must exist (year 1 or
  later, the day within the month); anything else is a \<^verbatim>\<open>ValueError\<close>.
\<close>

definition strptime_iso :: "string \<Rightarrow> exn + struct_time" where
  "strptime_iso s =
     (case split_on CHR ''-'' s of
        [y, m, rest] \<Rightarrow>
          (case split_where (\<lambda>c. c = CHR ''T'' \<or> c = CHR ''t'') rest of
             [d, clock] \<Rightarrow>
               (case split_on CHR '':'' clock of
                  [h, mi, sec] \<Rightarrow>
                    if re_Y y \<and> re_m m \<and> re_d d \<and> re_H h \<and> re_M mi \<and> re_S sec then
                      (let year = int_of_digits y;
                           month = int_of_digits m;
                           day = int_of_digits (lstrip CHR '' '' d)
                       in if 1 \<le> year \<and> day \<le> days_in_month year month then
                            Inr \<lparr>tm_year = year, tm_mon = month, tm_mday = day,
                                 tm_hour = int_of_digits h, tm_min = int_of_digits mi,
                                 tm_sec = int_of_digits sec\<rparr>
                          else Inl (ValueError ''day is out of range for month''))
                    else Inl (ValueError ''time data does not match format'')
                | _ \<Rightarrow> Inl (ValueError ''time data does not match format''))
           | _ \<Rightarrow> Inl (ValueError ''time data does not match format''))
      | _ \<Rightarrow> Inl (ValueError ''time data does not match format''))"

text \<open>Days from 1970-01-01 to a date of the proleptic Gregorian calendar.\<close>

definition days_from_civil :: "int \<Rightarrow> int \<Rightarrow> int \<Rightarrow> int" where
  "days_from_civil y m d =
     (let y1 = (if m \<le> 2 then y - 1 else y);
          era = y1 div 400;
          yoe = y1 - era * 400;
          doy = (153 * (if m > 2 then m - 3 else m + 9) + 2) div 5 + d - 1;
          doe = yoe * 365 + yoe div 4 - yoe div 100 + doy
      in era * 146097 + doe - 719468)"

text \<open>
  The seconds since the epoch of a broken-down time read as UTC
  (\<^verbatim>\<open>calendar.timegm\<close>).
\<close>

definition timegm :: "struct_time \<Rightarrow> int" where
  "timegm t =
     days_from_civil (tm_year t) (tm_mon t) (tm_mday t) * 86400
       + tm_hour t * 3600 + tm_min t * 60 + tm_sec t"

text \<open>
  \<^verbatim>\<open>time.mktime\<close> reads the broken-down time as local time, and since
  \<^verbatim>\<open>strptime\<close> leaves \<^verbatim>\<open>tm_isdst\<close> at \<open>-1\<close>, the C library finds out
  whether daylight saving is in effect then. \<open>zone\<close> is the process's local zone: for a
  wall-clock reading, given as the seconds it would denote in UTC, the seconds the zone
  lies west of UTC at that reading, daylight saving included.
\<close>

definition mktime :: "(int \<Rightarrow> int) \<Rightarrow> struct_time \<Rightarrow> int" where
  "mktime zone t = timegm t + zone (timegm t)"

text \<open>
  A zone without daylight saving, always \<open>west\<close> seconds west of UTC
  (\<^verbatim>\<open>time.timezone\<close> is \<open>west\<close>).
\<close>

definition fixed_zone :: "int \<Rightarrow> int \<Rightarrow> int" where
  "fixed_zone west reading = west"

section \<open>The GitHub App handler\<close>

definition INSTALLATION_TOKEN :: string where
  "INSTALLATION_TOKEN = ''/app/installations/{installation_id}/access_tokens''"

definition JWT_RENEW_PERIOD :: int where
  "JWT_RENEW_PERIOD = 600"

text \<open>
  The state of a \<^verbatim>\<open>GitHubAppHandler\<close>: \<open>app_name\<close> is its \<^verbatim>\<open>name\<close>, and
  \<open>jwt\<close>, \<open>tokens\<close> and \<open>handlers\<close> are the three caches.
\<close>

record app_handler =
  app_name :: string
  app_key :: string
  app_id :: string
  jwt :: "int \<times> string"
  tokens :: "json \<rightharpoonup> int \<times> string"
  handlers :: "json \<times> json \<rightharpoonup> github_handler"

text \<open>What the token-issuing endpoint returns.\<close>

record token_response =
  resp_expires_at :: string
  resp_token :: string

text \<open>
  \<open>jwt_encode payload key algorithm\<close> is the signing library: the signed token's bytes,
  or the exception it raises.
\<close>

type_synonym signer = "(string \<times> json) list \<Rightarrow> string \<Rightarrow> string \<Rightarrow> exn + string"

definition get_app_jwt ::
  "signer \<Rightarrow> int \<Rightarrow> app_handler \<Rightarrow> world \<Rightarrow> (exn + string) \<times> app_handler \<times> world" where
  "get_app_jwt jwt_encode now self w =
     (case jwt self of
        (expires, tok) \<Rightarrow>
          if expires = 0 \<or> expires < now + 60 then
            (let expires1 = now + JWT_RENEW_PERIOD;
                 payload = [(''iat'', JInt now), (''exp'', JInt expires1),
                            (''iss'', JStr (app_id self))]
             in case jwt_encode payload (app_key self) ''RS256'' of
                  Inl e \<Rightarrow> (Inl e, self, w)
                | Inr token_utf8 \<Rightarrow>
                    (case decode_utf8 token_utf8 of
                       Inl e \<Rightarrow> (Inl e, self, w)
                     | Inr tok1 \<Rightarrow>
                         (Inr tok1, self\<lparr>jwt := (expires1, tok1)\<rparr>,
                          log_msg INFO ''%s JWT valid for %i minutes''
                            [AStr ''Created new'', AQuot (expires1 - now) 60] w)))
          else
            (Inr tok, self,
             log_msg INFO ''%s JWT valid for %i minutes''
               [AStr ''Reusing'', AQuot (expires - now) 60] w))"

text \<open>The constructor: the fields, then one JWT to fail early.\<close>

definition GitHubAppHandler ::
  "signer \<Rightarrow> int \<Rightarrow> string \<Rightarrow> string \<Rightarrow> string \<Rightarrow> world \<Rightarrow> (exn + app_handler) \<times> world" where
  "GitHubAppHandler jwt_encode now nm key ident w =
     (case get_app_jwt jwt_encode now
             \<lparr>app_name = nm, app_key = key, app_id = ident, jwt = (0, []),
              tokens = Map.empty, handlers = Map.empty\<rparr> w of
        (Inl e, self, w1) \<Rightarrow> (Inl e, w1)
      | (Inr _, self, w1) \<Rightarrow> (Inr self, w1))"

definition parse_isotime :: "(int \<Rightarrow> int) \<Rightarrow> string \<Rightarrow> exn + int" where
  "parse_isotime zone timestr =
     (if timestr = [] then Inl IndexError
      else if last timestr \<noteq> CHR ''Z'' then
        Inl (ValueError (''Time String '' @ [CHR 0x27] @ ''%s'' @ [CHR 0x27] @ '' not in UTC''))
      else
        (case strptime_iso (butlast timestr) of
           Inl e \<Rightarrow> Inl e
         | Inr t \<Rightarrow> Inr (mktime zone t)))"

text \<open>Whether a value can be a dictionary key.\<close>

fun hashable :: "json \<Rightarrow> bool" where
  "hashable (JList xs) = False"
| "hashable (JObj kvs) = False"
| "hashable j = True"

text \<open>
  The call of the token-issuing endpoint: no body, the preview media type, and the
  App's JWT as the bearer.
\<close>

definition token_request :: "json \<Rightarrow> string \<Rightarrow> request" where
  "token_request installation j =
     \<lparr>verb = POST, url = INSTALLATION_TOKEN,
      url_vars = [(''installation_id'', installation)],
      payload = Some (JStr []),
      accept = Some ''application/vnd.github.machine-man-preview+json'',
      auth_jwt = Some j, auth_oauth = None\<rparr>"

text \<open>
  \<open>now\<close> is the clock read by \<open>get_installation_token\<close> itself and \<open>now_jwt\<close> the one
  read by the \<open>get_app_jwt\<close> it calls; \<open>http\<close> is the token-issuing endpoint and
  \<open>zone\<close> the process's local zone.
\<close>

definition get_installation_token ::
  "signer \<Rightarrow> (request \<Rightarrow> exn + token_response) \<Rightarrow> (int \<Rightarrow> int) \<Rightarrow> int \<Rightarrow> int
     \<Rightarrow> app_handler
     \<Rightarrow> json \<Rightarrow> json option \<Rightarrow> world \<Rightarrow> (exn + string) \<times> app_handler \<times> world" where
  "get_installation_token jwt_encode http zone now now_jwt self installation nm w =
     (let nm1 = (case nm of None \<Rightarrow> installation | Some n \<Rightarrow> n)
      in if \<not> hashable installation then (Inl TypeError, self, w)
         else
           (case (case tokens self installation of None \<Rightarrow> (0, []) | Some p \<Rightarrow> p) of
              (expires, tok) \<Rightarrow>
                if expires = 0 \<or> expires < now + 60 then
                  (case get_app_jwt jwt_encode now_jwt self w of
                     (Inl e, self1, w1) \<Rightarrow> (Inl e, self1, w1)
                   | (Inr j, self1, w1) \<Rightarrow>
                       (let rq = token_request installation j
                        in case http rq of
                             Inl e \<Rightarrow>
                               (Inl e, self1,
                                if is_BadRequest e then
                                  log_msg ERROR ''Failed to get installation token for %s''
                                    [AJson nm1] (send rq w1)
                                else send rq w1)
                           | Inr res \<Rightarrow>
                               (case parse_isotime zone (resp_expires_at res) of
                                  Inl e \<Rightarrow> (Inl e, self1, send rq w1)
                                | Inr expires1 \<Rightarrow>
                                    (Inr (resp_token res),
                                     self1\<lparr>tokens := (tokens self1)
                                              (installation \<mapsto> (expires1, resp_token res))\<rparr>,
                                     log_msg INFO ''%s token for %i valid for %i minutes''
                                       [AStr ''Created new'', AJson installation,
                                        AQuot (expires1 - now) 60] (send rq w1)))))
                else
                  (Inr tok, self,
                   log_msg INFO ''%s token for %i valid for %i minutes''
                     [AStr ''Reusing'', AJson installation, AQuot (expires - now) 60] w)))"

definition get_github_api ::
  "signer \<Rightarrow> (request \<Rightarrow> exn + token_response) \<Rightarrow> (int \<Rightarrow> int) \<Rightarrow> int \<Rightarrow> int
     \<Rightarrow> app_handler
     \<Rightarrow> event \<Rightarrow> world \<Rightarrow> (exn + github_handler) \<times> app_handler \<times> world" where
  "get_github_api jwt_encode http zone now now_jwt self ev w =
     (case event_get ev ''installation/id'' of
        Inl e \<Rightarrow> (Inl e, self, w)
      | Inr installation \<Rightarrow>
     (case event_get ev ''repository/owner/login'' of
        Inl e \<Rightarrow> (Inl e, self, w)
      | Inr user \<Rightarrow>
     (case event_get ev ''repository/name'' of
        Inl e \<Rightarrow> (Inl e, self, w)
      | Inr rp \<Rightarrow>
          if \<not> hashable installation \<or> \<not> hashable rp then (Inl TypeError, self, w)
          else
            (case handlers self (installation, rp) of
               Some h \<Rightarrow>
                 (case get_installation_token jwt_encode http zone now now_jwt self
                         installation None w of
                    (Inl e, self1, w1) \<Rightarrow> (Inl e, self1, w1)
                  | (Inr tok, self1, w1) \<Rightarrow>
                      (case set_oauth_token h tok of
                         Inl e \<Rightarrow> (Inl e, self1, w1)
                       | Inr h1 \<Rightarrow>
                           (Inr h1,
                            self1\<lparr>handlers := (handlers self1)((installation, rp) \<mapsto> h1)\<rparr>,
                            w1)))
             | None \<Rightarrow>
                 (case get_installation_token jwt_encode http zone now now_jwt self
                         installation None w of
                    (Inl e, self1, w1) \<Rightarrow> (Inl e, self1, w1)
                  | (Inr tok, self1, w1) \<Rightarrow>
                      (let h = create_api_object (GitHubHandler tok False user rp)
                                 (app_name self1)
                       in (Inr h,
                           self1\<lparr>handlers := (handlers self1)((installation, rp) \<mapsto> h)\<rparr>,
                           w1)))))))"

text \<open>
  The states of an App handler: what the constructor returns, and what any call of
  its three methods leaves behind (also a call that raises).
\<close>

inductive reachable :: "app_handler \<Rightarrow> bool" where
  created: "GitHubAppHandler jwt_encode now nm key ident w = (Inr self, w1) \<Longrightarrow> reachable self"
| after_jwt: "reachable self \<Longrightarrow> get_app_jwt jwt_encode now self w = (r, self1, w1)
      \<Longrightarrow> reachable self1"
| after_token: "reachable self \<Longrightarrow>
      get_installation_token jwt_encode http zone now now_jwt self installation nm w
        = (r, self1, w1)
      \<Longrightarrow> reachable self1"
| after_api: "reachable self \<Longrightarrow>
      get_github_api jwt_encode http zone now now_jwt self ev w = (r, self1, w1)
      \<Longrightarrow> reachable self1"

section \<open>Notions the properties are stated with\<close>

text \<open>
  The components of a path, and a path lying inside a directory: the directory's
  components begin the path's, both made absolute and normal first.
\<close>

definition path_parts :: "string \<Rightarrow> string list" where
  "path_parts p = filter (\<lambda>c. c \<noteq> []) (split_on CHR ''/'' p)"

definition resolves_inside :: "string \<Rightarrow> string \<Rightarrow> string \<Rightarrow> bool" where
  "resolves_inside cwd root p = prefix (path_parts (abspath cwd root)) (path_parts (abspath cwd p))"

text \<open>
  What \<^verbatim>\<open>git log -1 --oneline --decorate\<close> prints: nothing when no commit of the
  range touches the path, else one line with the abbreviated hash, the names of the refs
  at the commit in parentheses (when there are any) and the subject.
\<close>

datatype decoration = HeadTo string | Ref string | TagRef string | DetachedHead

record log_line =
  abbrev :: string
  decorations :: "decoration list"
  subject :: string

fun show_decoration :: "decoration \<Rightarrow> string" where
  "show_decoration (HeadTo b) = ''HEAD -> '' @ b"
| "show_decoration (Ref r) = r"
| "show_decoration (TagRef t) = ''tag: '' @ t"
| "show_decoration DetachedHead = ''HEAD''"

definition oneline_decorate :: "log_line option \<Rightarrow> string" where
  "oneline_decorate l =
     (case l of
        None \<Rightarrow> []
      | Some c \<Rightarrow>
          abbrev c
          @ (if decorations c = [] then []
             else '' ('' @ join_with '', '' (map show_decoration (decorations c)) @ '')'')
          @ '' '' @ subject c @ [CHR 0x0A])"

text \<open>A commit is decorated with a branch's name when one of its refs is that branch.\<close>

fun names_branch :: "string \<Rightarrow> decoration \<Rightarrow> bool" where
  "names_branch n (HeadTo b) = (b = n)"
| "names_branch n (Ref r) = (r = n)"
| "names_branch n d = False"

definition decorated_with :: "string \<Rightarrow> log_line \<Rightarrow> bool" where
  "decorated_with n c = list_ex (names_branch n) (decorations c)"

text \<open>A subprocess that writes \<open>out\<close> to its standard output, whatever its arguments.\<close>

definition prints :: "string \<Rightarrow> string list \<Rightarrow> string" where
  "prints out argv = out"

text \<open>A backend that answers \<open>r\<close> to every request.\<close>

definition replies :: "'a \<Rightarrow> request \<Rightarrow> 'a" where
  "replies r rq = r"

section \<open>Properties of the git handler\<close>

lemma str_in_sublist: "str_in sub s = sublist sub s"
  by (induction s) (auto simp: sublist_Cons_right)

lemma any_py_filter:
  "[] \<notin> set us \<Longrightarrow> any_py (filter (\<lambda>x. str_in desc x) us) = (\<exists>u\<in>set us. sublist desc u)"
  by (auto simp: any_py_def list_ex_iff str_in_sublist)

lemma find_name_split:
  "s \<in> set (map name rs) \<Longrightarrow>
   \<exists>pre r post. rs = pre @ r # post \<and> name r = s \<and> (\<forall>x\<in>set pre. name x \<noteq> s)
      \<and> find (\<lambda>r. name r = s) rs = Some r"
proof (induction rs)
  case Nil
  then show ?case by simp
next
  case (Cons a rs)
  show ?case
  proof (cases "name a = s")
    case True
    then show ?thesis by (intro exI[of _ "[]"] exI[of _ a] exI[of _ rs]) simp
  next
    case False
    with Cons.prems have "s \<in> set (map name rs)" by auto
    from Cons.IH[OF this] obtain pre r post where
      h: "rs = pre @ r # post" "name r = s" "\<forall>x\<in>set pre. name x \<noteq> s"
         "find (\<lambda>r. name r = s) rs = Some r" by blast
    with False show ?thesis
      by (intro exI[of _ "a # pre"] exI[of _ r] exI[of _ post]) simp
  qed
qed

text \<open>
  Claim C5. With every URL a non-empty string: \<open>get_remote\<close> returns the first remote
  named \<open>s\<close> when one has that name; otherwise the first remote, in the order of the
  list, one of whose URLs contains \<open>s\<close>; and it raises exactly when no remote has the
  name or such a URL, and then the \<^verbatim>\<open>KeyError\<close> that says no remote matches.
\<close>

theorem get_remote_resolves:
  assumes nonempty: "\<forall>r\<in>set (remotes rp). [] \<notin> set (urls r)"
  shows
   "((\<exists>r\<in>set (remotes rp). name r = s) \<longrightarrow>
       (\<exists>pre r post. remotes rp = pre @ r # post \<and> name r = s
          \<and> (\<forall>x\<in>set pre. name x \<noteq> s) \<and> get_remote rp s = Inr r))
    \<and> ((\<forall>r\<in>set (remotes rp). name r \<noteq> s)
        \<and> (\<exists>r\<in>set (remotes rp). \<exists>u\<in>set (urls r). sublist s u) \<longrightarrow>
       (\<exists>pre r post. remotes rp = pre @ r # post \<and> (\<exists>u\<in>set (urls r). sublist s u)
          \<and> (\<forall>x\<in>set pre. \<forall>u\<in>set (urls x). \<not> sublist s u) \<and> get_remote rp s = Inr r))
    \<and> ((\<exists>e. get_remote rp s = Inl e) \<longleftrightarrow>
         (\<forall>r\<in>set (remotes rp). name r \<noteq> s \<and> (\<forall>u\<in>set (urls r). \<not> sublist s u)))
    \<and> (\<forall>e. get_remote rp s = Inl e \<longrightarrow>
         e = KeyError (''No remote matching '' @ [CHR 0x27] @ s @ [CHR 0x27] @ '' found''))"
proof -
  let ?P = "\<lambda>r. any_py (filter (\<lambda>x. str_in s x) (urls r))"
  have P: "\<And>r. r \<in> set (remotes rp) \<Longrightarrow> ?P r = (\<exists>u\<in>set (urls r). sublist s u)"
    using nonempty by (simp add: any_py_filter)
  show ?thesis
  proof (cases "s \<in> set (map name (remotes rp))")
    case True
    from find_name_split[OF True] obtain pre r post where
      h: "remotes rp = pre @ r # post" "name r = s" "\<forall>x\<in>set pre. name x \<noteq> s"
         "find (\<lambda>r. name r = s) (remotes rp) = Some r" by blast
    have g: "get_remote rp s = Inr r" using True h(4) by (simp add: get_remote_def)
    have ex: "\<exists>r\<in>set (remotes rp). name r = s" using True by auto
    show ?thesis using g h ex by auto
  next
    case False
    then have nn: "\<forall>r\<in>set (remotes rp). name r \<noteq> s" by auto
    show ?thesis
    proof (cases "filter ?P (remotes rp)")
      case Nil
      then have "\<forall>r\<in>set (remotes rp). \<not> ?P r" by (simp add: filter_empty_conv)
      then have none: "\<forall>r\<in>set (remotes rp). \<forall>u\<in>set (urls r). \<not> sublist s u"
        using P by blast
      have "get_remote rp s
              = Inl (KeyError (''No remote matching '' @ [CHR 0x27] @ s @ [CHR 0x27] @ '' found''))"
        using False Nil by (simp add: get_remote_def)
      then show ?thesis using nn none by auto
    next
      case (Cons r rest)
      then obtain pre post where
        h: "remotes rp = pre @ r # post" "\<forall>x\<in>set pre. \<not> ?P x" "?P r"
        by (auto simp: filter_eq_Cons_iff)
      have rin: "r \<in> set (remotes rp)" using h(1) by simp
      have pin: "\<And>x. x \<in> set pre \<Longrightarrow> x \<in> set (remotes rp)" using h(1) by simp
      have m: "\<exists>u\<in>set (urls r). sublist s u" using P[OF rin] h(3) by simp
      have pm: "\<forall>x\<in>set pre. \<forall>u\<in>set (urls x). \<not> sublist s u"
        using P pin h(2) by blast
      have g: "get_remote rp s = Inr r" using False Cons by (simp add: get_remote_def)
      have "\<exists>pre r post. remotes rp = pre @ r # post \<and> (\<exists>u\<in>set (urls r). sublist s u)
          \<and> (\<forall>x\<in>set pre. \<forall>u\<in>set (urls x). \<not> sublist s u) \<and> get_remote rp s = Inr r"
        using h(1) m pm g by blast
      moreover have "\<not> (\<forall>r\<in>set (remotes rp). name r \<noteq> s \<and> (\<forall>u\<in>set (urls r). \<not> sublist s u))"
        using rin m by blast
      ultimately show ?thesis using nn g by auto
    qed
  qed
qed
theorem get_remote_resolves_witness:
  "get_remote
     \<lparr>working_dir = ''/srv/recipes'',
      remotes = [\<lparr>name = ''origin'', urls = [''https://github.com/bioconda/bioconda-recipes.git'']\<rparr>,
                 \<lparr>name = ''fork'', urls = [''git@github.com:epruesse/bioconda-recipes.git'']\<rparr>],
      worktree = [], index = [], commits = []\<rparr> ''epruesse''
     = Inr \<lparr>name = ''fork'', urls = [''git@github.com:epruesse/bioconda-recipes.git'']\<rparr>
   \<and> (\<exists>e. get_remote
     \<lparr>working_dir = ''/srv/recipes'',
      remotes = [\<lparr>name = ''origin'', urls = [''https://github.com/bioconda/bioconda-recipes.git'']\<rparr>,
                 \<lparr>name = ''fork'', urls = [''git@github.com:epruesse/bioconda-recipes.git'']\<rparr>],
      worktree = [], index = [], commits = []\<rparr> ''gitlab'' = Inl e)"
proof -
  let ?rp = "\<lparr>working_dir = ''/srv/recipes'',
      remotes = [\<lparr>name = ''origin'', urls = [''https://github.com/bioconda/bioconda-recipes.git'']\<rparr>,
                 \<lparr>name = ''fork'', urls = [''git@github.com:epruesse/bioconda-recipes.git'']\<rparr>],
      worktree = [], index = [], commits = []\<rparr>"
  have h: "\<forall>r\<in>set (remotes ?rp). [] \<notin> set (urls r)" by simp
  have a: "get_remote ?rp ''epruesse''
     = Inr \<lparr>name = ''fork'', urls = [''git@github.com:epruesse/bioconda-recipes.git'']\<rparr>"
    by (simp add: get_remote_def any_py_def)
  have "\<forall>r\<in>set (remotes ?rp). name r \<noteq> ''gitlab'' \<and> (\<forall>u\<in>set (urls r). \<not> sublist ''gitlab'' u)"
    by (simp add: str_in_sublist[symmetric])
  with get_remote_resolves[OF h, of "''gitlab''"] have "\<exists>e. get_remote ?rp ''gitlab'' = Inl e"
    by blast
  with a show ?thesis by blast
qed

lemma sublist_join_with:
  "d \<in> set ds \<Longrightarrow> sublist d (join_with sep ds)"
proof (induction sep ds rule: join_with.induct)
  case (1 sep)
  then show ?case by simp
next
  case (2 sep x)
  then show ?case by simp
next
  case (3 sep x y ys)
  show ?case
  proof (cases "d = x")
    case True
    then show ?thesis by simp
  next
    case False
    with 3 have "sublist d (join_with sep (y # ys))" by simp
    then show ?thesis
      by (metis append.assoc join_with.simps(3) sublist_append_leftI sublist_order.order.trans)
  qed
qed

lemma names_branch_sublist:
  assumes "names_branch n d"
  shows "sublist n (show_decoration d)"
proof (cases d)
  case (HeadTo b)
  with assms have "show_decoration d = ''HEAD -> '' @ n" by simp
  then show ?thesis by (simp only: sublist_append_leftI)
next
  case (Ref r)
  with assms show ?thesis by simp
next
  case (TagRef t)
  with assms show ?thesis by simp
next
  case DetachedHead
  with assms show ?thesis by simp
qed

lemma decorated_sublist:
  assumes "decorated_with n c"
  shows "sublist n (oneline_decorate (Some c))"
proof -
  from assms obtain d where d: "d \<in> set (decorations c)" "names_branch n d"
    by (auto simp: decorated_with_def list_ex_iff)
  then have ne: "decorations c \<noteq> []" by auto
  have "sublist (show_decoration d) (join_with '', '' (map show_decoration (decorations c)))"
    using d(1) by (intro sublist_join_with) simp
  with names_branch_sublist[OF d(2)]
  have s: "sublist n (join_with '', '' (map show_decoration (decorations c)))"
    using sublist_order.order.trans by blast
  have "oneline_decorate (Some c)
          = (abbrev c @ '' ('') @ join_with '', '' (map show_decoration (decorations c))
              @ ('')'' @ '' '' @ subject c @ [CHR 0x0A])"
    using ne by (simp add: oneline_decorate_def)
  moreover have "sublist (join_with '', '' (map show_decoration (decorations c)))
     ((abbrev c @ '' ('') @ join_with '', '' (map show_decoration (decorations c))
              @ ('')'' @ '' '' @ subject c @ [CHR 0x0A]))"
    by (rule sublist_appendI)
  ultimately show ?thesis using s sublist_order.order.trans by metis
qed

text \<open>
  What \<open>branch_is_current\<close> computes from the output of the log: the decode error when
  a byte is not ASCII, else whether the branch's name occurs somewhere in the output.
\<close>

lemma branch_is_current_output:
  assumes "run (log_argv master (branch_name br) path) = out"
  shows "branch_is_current run br path master
           = (if list_all (\<lambda>c. (of_char c :: nat) < 128) out
              then Inr (sublist (branch_name br) out)
              else Inl UnicodeDecodeError)"
  using assms by (simp add: branch_is_current_def decode_ascii_def str_in_sublist)

text \<open>
  When the log prints in ASCII the line of the most recent commit of the range that
  touches the path, or nothing, the result is true whenever the commit is decorated with
  the branch's name, and false for an empty log and a branch with a non-empty name.
\<close>

lemma branch_is_current_substring:
  assumes out: "run (log_argv master (branch_name br) path) = oneline_decorate l"
      and ascii: "decode_ascii (oneline_decorate l) = Inr (oneline_decorate l)"
  shows "branch_is_current run br path master
           = Inr (sublist (branch_name br) (oneline_decorate l))
     \<and> ((\<exists>c. l = Some c \<and> decorated_with (branch_name br) c) \<longrightarrow>
           branch_is_current run br path master = Inr True)
     \<and> (l = None \<and> branch_name br \<noteq> [] \<longrightarrow>
           branch_is_current run br path master = Inr False)"
proof -
  have r: "branch_is_current run br path master
           = Inr (sublist (branch_name br) (oneline_decorate l))"
    using out ascii by (simp add: branch_is_current_def str_in_sublist)
  moreover have "decorated_with (branch_name br) c \<Longrightarrow> sublist (branch_name br) (oneline_decorate (Some c))" for c
    by (rule decorated_sublist)
  moreover have "oneline_decorate None = []" by (simp add: oneline_decorate_def)
  ultimately show ?thesis by auto
qed
lemma branch_is_current_substring_witness:
  "branch_is_current
     (prints (oneline_decorate
        (Some \<lparr>abbrev = ''4f2a91c'',
               decorations = [HeadTo ''bump/samtools'', Ref ''origin/bump/samtools''],
               subject = ''Update samtools to 1.9''\<rparr>)))
     \<lparr>branch_name = ''bump/samtools'', commit_tree = []\<rparr>
     ''recipes/samtools/meta.yaml'' ''master'' = Inr True"
proof -
  let ?c = "\<lparr>abbrev = ''4f2a91c'',
               decorations = [HeadTo ''bump/samtools'', Ref ''origin/bump/samtools''],
               subject = ''Update samtools to 1.9''\<rparr>"
  let ?br = "\<lparr>branch_name = ''bump/samtools'', commit_tree = []\<rparr>"
  have out: "prints (oneline_decorate (Some ?c))
               (log_argv ''master'' (branch_name ?br) ''recipes/samtools/meta.yaml'')
             = oneline_decorate (Some ?c)"
    by (simp add: prints_def)
  have ascii: "decode_ascii (oneline_decorate (Some ?c)) = Inr (oneline_decorate (Some ?c))"
    by (simp add: decode_ascii_def oneline_decorate_def)
  have dec: "\<exists>c. Some ?c = Some c \<and> decorated_with (branch_name ?br) c"
    by (simp add: decorated_with_def)
  from branch_is_current_substring[where run = "prints (oneline_decorate (Some ?c))"
         and master = "''master''" and br = ?br and path = "''recipes/samtools/meta.yaml''"
         and l = "Some ?c", OF out ascii] dec
  show ?thesis by blast
qed

text \<open>
  Claim C2 fails on the code: the most recent commit of the range that touches the path
  is on \<^verbatim>\<open>master\<close> only, so the branch \<^verbatim>\<open>samtools\<close> does not have it, but its
  subject mentions the branch's name and \<open>branch_is_current\<close> returns true.
\<close>

theorem branch_is_current_false_positive:
  "branch_is_current
     (prints (oneline_decorate
        (Some \<lparr>abbrev = ''4f2a91c'',
               decorations = [HeadTo ''master'', Ref ''origin/master''],
               subject = ''Update samtools to 1.9''\<rparr>)))
     \<lparr>branch_name = ''samtools'', commit_tree = []\<rparr>
     ''recipes/samtools/meta.yaml'' ''master'' = Inr True
   \<and> \<not> decorated_with ''samtools''
         \<lparr>abbrev = ''4f2a91c'',
          decorations = [HeadTo ''master'', Ref ''origin/master''],
          subject = ''Update samtools to 1.9''\<rparr>"
  by (simp add: branch_is_current_def prints_def decode_ascii_def oneline_decorate_def
        decorated_with_def)

text \<open>
  Claim C1 fails on the code: a path in a sibling directory whose name begins with the
  repository root's name passes the prefix test on the strings, and the rest of the path
  is looked up in the branch's tree.
\<close>

theorem read_from_branch_sibling_directory:
  "read_from_branch ''/home/bot''
     \<lparr>repo = \<lparr>working_dir = ''/srv/recipes'', remotes = [], worktree = [], index = [],
              commits = []\<rparr>,
      dry_run = False,
      home_remote = \<lparr>name = ''origin'', urls = []\<rparr>,
      fork_remote = \<lparr>name = ''origin'', urls = []\<rparr>\<rparr>
     \<lparr>branch_name = ''master'', commit_tree = [(''-private/token.txt'', ''secret'')]\<rparr>
     ''/srv/recipes/../recipes-private/token.txt'' = Inr ''secret''
   \<and> read_from_branch ''/home/bot''
     \<lparr>repo = \<lparr>working_dir = ''/srv/recipes'', remotes = [], worktree = [], index = [],
              commits = []\<rparr>,
      dry_run = False,
      home_remote = \<lparr>name = ''origin'', urls = []\<rparr>,
      fork_remote = \<lparr>name = ''origin'', urls = []\<rparr>\<rparr>
     \<lparr>branch_name = ''master'', commit_tree = []\<rparr>
     ''/srv/recipes/../recipes-private/token.txt'' = Inl (KeyError ''-private/token.txt'')
   \<and> \<not> resolves_inside ''/home/bot'' ''/srv/recipes'' ''/srv/recipes/../recipes-private/token.txt''"
  by (simp add: read_from_branch_def abspath_def normpath_def startswith_def lstrip_def
        decode_utf8_def resolves_inside_def path_parts_def Let_def)

text \<open>A path that leaves the repository through \<^verbatim>\<open>..\<close> is rejected.\<close>

lemma read_from_branch_dotdot_rejected:
  "read_from_branch ''/srv/recipes''
     \<lparr>repo = \<lparr>working_dir = ''/srv/recipes'', remotes = [], worktree = [], index = [],
              commits = []\<rparr>,
      dry_run = False,
      home_remote = \<lparr>name = ''origin'', urls = []\<rparr>,
      fork_remote = \<lparr>name = ''origin'', urls = []\<rparr>\<rparr>
     \<lparr>branch_name = ''master'', commit_tree = [(''etc/passwd'', ''x'')]\<rparr>
     ''recipes/../../../etc/passwd''
   = Inl (RuntimeError ''File /etc/passwd not inside /srv/recipes'')"
  by (simp add: read_from_branch_def abspath_def normpath_def startswith_def endswith_def
         path_join_def lstrip_def Let_def suffix_to_prefix)
lemma index_add_other:
  "index_add wt idx fs = Inr idx' \<Longrightarrow> g \<notin> set fs \<Longrightarrow> map_of idx' g = map_of idx g"
  by (induction fs arbitrary: idx) (auto simp: update_conv' split: option.splits)

lemma index_add_sets:
  "index_add wt idx fs = Inr idx' \<Longrightarrow> f \<in> set fs
     \<Longrightarrow> map_of idx' f = map_of wt f \<and> map_of wt f \<noteq> None"
proof (induction fs arbitrary: idx)
  case Nil
  then show ?case by simp
next
  case (Cons a fs)
  from Cons.prems(1) obtain c where c: "map_of wt a = Some c"
     and rest: "index_add wt (AList.update a c idx) fs = Inr idx'"
    by (auto split: option.splits)
  show ?case
  proof (cases "f \<in> set fs")
    case True
    from Cons.IH[OF rest True] show ?thesis .
  next
    case False
    with Cons.prems(2) have "f = a" by simp
    with index_add_other[OF rest False] c show ?thesis by (simp add: update_conv')
  qed
qed

lemma index_add_same:
  "\<forall>f\<in>set fs. map_of idx f = map_of wt f \<and> map_of wt f \<noteq> None
     \<Longrightarrow> index_add wt idx fs = Inr idx"
  by (induction fs) (auto simp: update_triv)

lemma index_diff_same: "index_diff idx idx = []"
  by (simp add: index_diff_def)

lemma first_call_state:
  assumes "commit_and_push_changes git self files bname msg sign w = (Inr r, self1, w1)"
  shows "\<exists>c cs. index_add (worktree (repo self)) (index (repo self)) files
                   = Inr (index (repo self1))
           \<and> worktree (repo self1) = worktree (repo self)
           \<and> commits (repo self1) = c # cs
           \<and> index_diff (index (repo self1)) (snd c) = []"
  using assms
  by (auto simp: commit_and_push_changes_def Let_def index_diff_same
           split: sum.splits list.splits if_splits)

text \<open>
  Claim C6. After a call that returned, a second call with the same files, their contents
  on disk unchanged, returns false and leaves the repository and the outside as they
  were: no commit, no push, no log record. And whenever staging the files leaves the
  index equal to the tree of HEAD, the call returns false with only the index written.
\<close>

theorem commit_and_push_changes_twice:
  assumes first: "commit_and_push_changes git self files bname msg sign w = (Inr r, self1, w1)"
      and same: "\<forall>f\<in>set files. map_of wt' f = map_of (worktree (repo self1)) f"
  shows "commit_and_push_changes git' (self1\<lparr>repo := (repo self1)\<lparr>worktree := wt'\<rparr>\<rparr>)
             files bname' msg' sign' w1
           = (Inr False, self1\<lparr>repo := (repo self1)\<lparr>worktree := wt'\<rparr>\<rparr>, w1)
       \<and> (\<forall>other idx c cs.
             index_add (worktree (repo other)) (index (repo other)) files = Inr idx
             \<and> commits (repo other) = c # cs \<and> index_diff idx (snd c) = [] \<longrightarrow>
             commit_and_push_changes git other files bname msg sign w
               = (Inr False, other\<lparr>repo := (repo other)\<lparr>index := idx\<rparr>\<rparr>, w))"
proof -
  from first_call_state[OF first] obtain c cs where
    st: "index_add (worktree (repo self)) (index (repo self)) files = Inr (index (repo self1))"
        "worktree (repo self1) = worktree (repo self)"
        "commits (repo self1) = c # cs"
        "index_diff (index (repo self1)) (snd c) = []"
    by blast
  have "\<forall>f\<in>set files. map_of (index (repo self1)) f = map_of wt' f \<and> map_of wt' f \<noteq> None"
    using index_add_sets[OF st(1)] same st(2) by simp
  then have add: "index_add wt' (index (repo self1)) files = Inr (index (repo self1))"
    by (rule index_add_same)
  have second: "commit_and_push_changes git' (self1\<lparr>repo := (repo self1)\<lparr>worktree := wt'\<rparr>\<rparr>)
             files bname' msg' sign' w1
           = (Inr False, self1\<lparr>repo := (repo self1)\<lparr>worktree := wt'\<rparr>\<rparr>, w1)"
    using add st(3,4) by (simp add: commit_and_push_changes_def)
  have guard: "\<forall>other idx c cs.
             index_add (worktree (repo other)) (index (repo other)) files = Inr idx
             \<and> commits (repo other) = c # cs \<and> index_diff idx (snd c) = [] \<longrightarrow>
             commit_and_push_changes git other files bname msg sign w
               = (Inr False, other\<lparr>repo := (repo other)\<lparr>index := idx\<rparr>\<rparr>, w)"
    by (simp add: commit_and_push_changes_def)
  from second guard show ?thesis by blast
qed
theorem commit_and_push_changes_twice_witness:
  "commit_and_push_changes
     \<lparr>commit_signed = (\<lambda>m. True), push_result = (\<lambda>r b. [\<lparr>flags = 256, summary = []\<rparr>])\<rparr>
     \<lparr>repo = \<lparr>working_dir = ''/srv/recipes'', remotes = [],
              worktree = [(''recipes/samtools/meta.yaml'', ''version: 1.9'')],
              index = [(''recipes/samtools/meta.yaml'', ''version: 1.9'')],
              commits = [(''Update samtools'', [(''recipes/samtools/meta.yaml'', ''version: 1.9'')]),
                         (''Add samtools'', [(''recipes/samtools/meta.yaml'', ''version: 1.8'')])]\<rparr>,
      dry_run = False,
      home_remote = \<lparr>name = ''origin'', urls = []\<rparr>,
      fork_remote = \<lparr>name = ''origin'', urls = []\<rparr>\<rparr>
     [''recipes/samtools/meta.yaml''] ''bump/samtools'' ''Update samtools'' False
     \<lparr>logs = [(INFO, ''Pushing branch %s'', [AStr ''bump/samtools''])], requests = [],
      pushes = [(''origin'', ''bump/samtools'')]\<rparr>
   = (Inr False,
      \<lparr>repo = \<lparr>working_dir = ''/srv/recipes'', remotes = [],
              worktree = [(''recipes/samtools/meta.yaml'', ''version: 1.9'')],
              index = [(''recipes/samtools/meta.yaml'', ''version: 1.9'')],
              commits = [(''Update samtools'', [(''recipes/samtools/meta.yaml'', ''version: 1.9'')]),
                         (''Add samtools'', [(''recipes/samtools/meta.yaml'', ''version: 1.8'')])]\<rparr>,
      dry_run = False,
      home_remote = \<lparr>name = ''origin'', urls = []\<rparr>,
      fork_remote = \<lparr>name = ''origin'', urls = []\<rparr>\<rparr>,
      \<lparr>logs = [(INFO, ''Pushing branch %s'', [AStr ''bump/samtools''])], requests = [],
       pushes = [(''origin'', ''bump/samtools'')]\<rparr>)"
proof -
  let ?G = "\<lparr>commit_signed = (\<lambda>m. True),
             push_result = (\<lambda>r b. [\<lparr>flags = 256, summary = []\<rparr>])\<rparr>"
  let ?S0 = "\<lparr>repo = \<lparr>working_dir = ''/srv/recipes'', remotes = [],
              worktree = [(''recipes/samtools/meta.yaml'', ''version: 1.9'')],
              index = [(''recipes/samtools/meta.yaml'', ''version: 1.8'')],
              commits = [(''Add samtools'', [(''recipes/samtools/meta.yaml'', ''version: 1.8'')])]\<rparr>,
      dry_run = False,
      home_remote = \<lparr>name = ''origin'', urls = []\<rparr>,
      fork_remote = \<lparr>name = ''origin'', urls = []\<rparr>\<rparr>"
  let ?S1 = "\<lparr>repo = \<lparr>working_dir = ''/srv/recipes'', remotes = [],
              worktree = [(''recipes/samtools/meta.yaml'', ''version: 1.9'')],
              index = [(''recipes/samtools/meta.yaml'', ''version: 1.9'')],
              commits = [(''Update samtools'', [(''recipes/samtools/meta.yaml'', ''version: 1.9'')]),
                         (''Add samtools'', [(''recipes/samtools/meta.yaml'', ''version: 1.8'')])]\<rparr>,
      dry_run = False,
      home_remote = \<lparr>name = ''origin'', urls = []\<rparr>,
      fork_remote = \<lparr>name = ''origin'', urls = []\<rparr>\<rparr>"
  let ?W1 = "\<lparr>logs = [(INFO, ''Pushing branch %s'', [AStr ''bump/samtools''])], requests = [],
      pushes = [(''origin'', ''bump/samtools'')]\<rparr>"
  have first: "commit_and_push_changes ?G ?S0 [''recipes/samtools/meta.yaml'']
                 ''bump/samtools'' ''Update samtools'' False
                 \<lparr>logs = [], requests = [], pushes = []\<rparr> = (Inr True, ?S1, ?W1)"
    by (simp add: commit_and_push_changes_def index_diff_def log_msg_def FAST_FORWARD_def
          NEW_HEAD_def Let_def)
  have same: "\<forall>f\<in>set [''recipes/samtools/meta.yaml''].
                map_of [(''recipes/samtools/meta.yaml'', ''version: 1.9'')] f
                  = map_of (worktree (git_handler.repo ?S1)) f"
    by simp
  from commit_and_push_changes_twice[OF first same, where git' = ?G
         and bname' = "''bump/samtools''" and msg' = "''Update samtools''" and sign' = False]
  show ?thesis by simp
qed

section \<open>Properties of the GitHub handlers\<close>

text \<open>
  Claim C3. With the cached pair \<open>(e, tok)\<close>: when \<open>e\<close> is set and at least
  \<open>now + 60\<close>, the cached token is returned and the handler is unchanged, whatever the
  signer would do; when \<open>e\<close> is unset or below \<open>now + 60\<close> and the signer returns a
  token, that token is stored with expiry \<open>now + 600\<close> and returned. So a request at
  \<open>e - 61\<close> reuses the token and one at \<open>e - 59\<close> stores a new one that expires at
  \<open>e - 59 + 600\<close>.
\<close>

theorem get_app_jwt_cache:
  assumes cached: "jwt self = (e, tok)"
  shows "(e \<noteq> 0 \<and> e \<ge> now + 60 \<longrightarrow>
            get_app_jwt jwt_encode now self w
              = (Inr tok, self,
                 log_msg INFO ''%s JWT valid for %i minutes''
                   [AStr ''Reusing'', AQuot (e - now) 60] w))
       \<and> ((e = 0 \<or> e < now + 60)
            \<and> jwt_encode [(''iat'', JInt now), (''exp'', JInt (now + 600)),
                           (''iss'', JStr (app_id self))] (app_key self) ''RS256'' = Inr new
            \<and> decode_utf8 new = Inr new \<longrightarrow>
            get_app_jwt jwt_encode now self w
              = (Inr new, self\<lparr>jwt := (now + 600, new)\<rparr>,
                 log_msg INFO ''%s JWT valid for %i minutes''
                   [AStr ''Created new'', AQuot 600 60] w))
       \<and> (e \<noteq> 0 \<longrightarrow> fst (get_app_jwt jwt_encode (e - 61) self w) = Inr tok
                      \<and> fst (snd (get_app_jwt jwt_encode (e - 61) self w)) = self)
       \<and> (jwt_encode [(''iat'', JInt (e - 59)), (''exp'', JInt (e - 59 + 600)),
                           (''iss'', JStr (app_id self))] (app_key self) ''RS256'' = Inr new
            \<and> decode_utf8 new = Inr new \<longrightarrow>
            fst (get_app_jwt jwt_encode (e - 59) self w) = Inr new
            \<and> jwt (fst (snd (get_app_jwt jwt_encode (e - 59) self w))) = (e - 59 + 600, new))"
  using cached by (simp add: get_app_jwt_def JWT_RENEW_PERIOD_def)

theorem get_app_jwt_cache_witness:
  "fst (get_app_jwt (\<lambda>p k a. Inr ''fresh'') 939
          \<lparr>app_name = ''bot'', app_key = ''key'', app_id = ''42'', jwt = (1000, ''cached''),
           tokens = Map.empty, handlers = Map.empty\<rparr>
          \<lparr>logs = [], requests = [], pushes = []\<rparr>) = Inr ''cached''
   \<and> fst (get_app_jwt (\<lambda>p k a. Inr ''fresh'') 941
          \<lparr>app_name = ''bot'', app_key = ''key'', app_id = ''42'', jwt = (1000, ''cached''),
           tokens = Map.empty, handlers = Map.empty\<rparr>
          \<lparr>logs = [], requests = [], pushes = []\<rparr>) = Inr ''fresh''
   \<and> jwt (fst (snd (get_app_jwt (\<lambda>p k a. Inr ''fresh'') 941
          \<lparr>app_name = ''bot'', app_key = ''key'', app_id = ''42'', jwt = (1000, ''cached''),
           tokens = Map.empty, handlers = Map.empty\<rparr>
          \<lparr>logs = [], requests = [], pushes = []\<rparr>))) = (1541, ''fresh'')"
proof -
  let ?S = "\<lparr>app_name = ''bot'', app_key = ''key'', app_id = ''42'', jwt = (1000, ''cached''),
           tokens = Map.empty, handlers = Map.empty\<rparr>"
  have c: "jwt ?S = (1000, ''cached'')" by simp
  have d: "decode_utf8 ''fresh'' = Inr ''fresh''" by (simp add: decode_utf8_def)
  from get_app_jwt_cache[OF c, where jwt_encode = "\<lambda>p k a. Inr ''fresh''" and new = "''fresh''"
         and w = "\<lparr>logs = [], requests = [], pushes = []\<rparr>"] d
  show ?thesis by simp
qed

lemma get_app_jwt_frame:
  "get_app_jwt jwt_encode now self w = (r, self1, w1) \<Longrightarrow>
     requests w1 = requests w \<and> pushes w1 = pushes w
     \<and> tokens self1 = tokens self \<and> handlers self1 = handlers self
     \<and> app_name self1 = app_name self"
  by (auto simp: get_app_jwt_def log_msg_def Let_def split: prod.splits sum.splits if_splits)

text \<open>
  Claim C4. For an installation identifier that can be a dictionary key: when the cache
  has no entry for it, or one whose expiry is unset or below \<open>now + 60\<close>, and the
  App's JWT is obtained, the endpoint answers and its time stamp parses, the call issues
  exactly one request, a POST to the token-issuing endpoint with the identifier as
  \<^verbatim>\<open>installation_id\<close>, the preview media type and the JWT as bearer, stores the
  parsed expiry with the token under the identifier and returns the token. When the cache holds a
  pair whose expiry is at least \<open>now + 60\<close> (the clock being at or after the epoch),
  it returns the cached token, the handler unchanged and no request issued.
\<close>

theorem get_installation_token_cache:
  assumes key: "hashable installation"
  shows
   "((tokens self installation = None
        \<or> (\<exists>e t. tokens self installation = Some (e, t) \<and> (e = 0 \<or> e < now + 60)))
      \<and> get_app_jwt jwt_encode now_jwt self w = (Inr j, self1, w1)
      \<and> http \<lparr>verb = POST, url = ''/app/installations/{installation_id}/access_tokens'',
                url_vars = [(''installation_id'', installation)], payload = Some (JStr []),
                accept = Some ''application/vnd.github.machine-man-preview+json'',
                auth_jwt = Some j, auth_oauth = None\<rparr> = Inr res
      \<and> parse_isotime zone (resp_expires_at res) = Inr e1 \<longrightarrow>
      (\<exists>w2. get_installation_token jwt_encode http zone now now_jwt self installation nm w
          = (Inr (resp_token res),
             self1\<lparr>tokens := (tokens self1)(installation \<mapsto> (e1, resp_token res))\<rparr>, w2)
        \<and> requests w2
            = requests w @ [\<lparr>verb = POST, url = ''/app/installations/{installation_id}/access_tokens'',
                url_vars = [(''installation_id'', installation)], payload = Some (JStr []),
                accept = Some ''application/vnd.github.machine-man-preview+json'',
                auth_jwt = Some j, auth_oauth = None\<rparr>]))
    \<and> (0 \<le> now \<and> tokens self installation = Some (e, t) \<and> e \<ge> now + 60 \<longrightarrow>
      (\<exists>w2. get_installation_token jwt_encode http zone now now_jwt self installation nm w
          = (Inr t, self, w2)
        \<and> requests w2 = requests w))"
proof -
  have hit: "0 \<le> now \<and> tokens self installation = Some (e, t) \<and> e \<ge> now + 60 \<longrightarrow>
      (\<exists>w2. get_installation_token jwt_encode http zone now now_jwt self installation nm w
          = (Inr t, self, w2)
        \<and> requests w2 = requests w)"
    using key by (auto simp: get_installation_token_def log_msg_def)
  have miss: "(tokens self installation = None
        \<or> (\<exists>e t. tokens self installation = Some (e, t) \<and> (e = 0 \<or> e < now + 60)))
      \<and> get_app_jwt jwt_encode now_jwt self w = (Inr j, self1, w1)
      \<and> http \<lparr>verb = POST, url = ''/app/installations/{installation_id}/access_tokens'',
                url_vars = [(''installation_id'', installation)], payload = Some (JStr []),
                accept = Some ''application/vnd.github.machine-man-preview+json'',
                auth_jwt = Some j, auth_oauth = None\<rparr> = Inr res
      \<and> parse_isotime zone (resp_expires_at res) = Inr e1 \<longrightarrow>
      (\<exists>w2. get_installation_token jwt_encode http zone now now_jwt self installation nm w
          = (Inr (resp_token res),
             self1\<lparr>tokens := (tokens self1)(installation \<mapsto> (e1, resp_token res))\<rparr>, w2)
        \<and> requests w2
            = requests w @ [\<lparr>verb = POST, url = ''/app/installations/{installation_id}/access_tokens'',
                url_vars = [(''installation_id'', installation)], payload = Some (JStr []),
                accept = Some ''application/vnd.github.machine-man-preview+json'',
                auth_jwt = Some j, auth_oauth = None\<rparr>])"
  proof (intro impI, elim conjE)
    assume c: "tokens self installation = None
        \<or> (\<exists>e t. tokens self installation = Some (e, t) \<and> (e = 0 \<or> e < now + 60))"
      and j: "get_app_jwt jwt_encode now_jwt self w = (Inr j, self1, w1)"
      and h: "http \<lparr>verb = POST, url = ''/app/installations/{installation_id}/access_tokens'',
                url_vars = [(''installation_id'', installation)], payload = Some (JStr []),
                accept = Some ''application/vnd.github.machine-man-preview+json'',
                auth_jwt = Some j, auth_oauth = None\<rparr> = Inr res"
      and p: "parse_isotime zone (resp_expires_at res) = Inr e1"
    from get_app_jwt_frame[OF j] have rq: "requests w1 = requests w" by simp
    from c show "\<exists>w2. get_installation_token jwt_encode http zone now now_jwt self installation nm w
          = (Inr (resp_token res),
             self1\<lparr>tokens := (tokens self1)(installation \<mapsto> (e1, resp_token res))\<rparr>, w2)
        \<and> requests w2
            = requests w @ [\<lparr>verb = POST, url = ''/app/installations/{installation_id}/access_tokens'',
                url_vars = [(''installation_id'', installation)], payload = Some (JStr []),
                accept = Some ''application/vnd.github.machine-man-preview+json'',
                auth_jwt = Some j, auth_oauth = None\<rparr>]"
      using key j h p rq
      by (auto simp: get_installation_token_def token_request_def INSTALLATION_TOKEN_def
               log_msg_def send_def Let_def)
  qed
  from miss hit show ?thesis by blast
qed





text \<open>
  Claim C7. Under dry-run, \<open>create_pr\<close> returns the record with number \<open>-1\<close> and
  \<open>create_comment\<close> returns \<open>-1\<close>, each after logging what it would do and without
  issuing a request; \<open>delete_remote_branch\<close> logs what it would delete and pushes
  nothing.
\<close>

theorem dry_run_leaves_remote_alone:
  "(dry_run h \<longrightarrow>
      create_pr http h title from_branch from_user to_branch body maintainer_can_modify w
        = (Inr (JObj [(''number'', JInt (- 1))]),
           log_msg INFO (''Would create PR '' @ [CHR 0x27] @ ''%s'' @ [CHR 0x27]) [AStr title]
             (log_msg DEBUG ''PR data %s''
                [AJson (JObj (pr_data h title from_branch from_user to_branch body
                                maintainer_can_modify))] w))
      \<and> requests (snd (create_pr http h title from_branch from_user to_branch body
                          maintainer_can_modify w)) = requests w
      \<and> pushes (snd (create_pr http h title from_branch from_user to_branch body
                          maintainer_can_modify w)) = pushes w)
   \<and> (dry_run h \<longrightarrow>
      create_comment http h number comment w
        = (Inr (JInt (- 1)),
           log_msg INFO ''Would create comment on issue #%i'' [AInt number] w)
      \<and> requests (snd (create_comment http h number comment w)) = requests w
      \<and> pushes (snd (create_comment http h number comment w)) = pushes w)
   \<and> (git_handler.dry_run g \<longrightarrow>
      delete_remote_branch g bname w
        = log_msg INFO ''Would delete branch %s'' [AStr bname] w
      \<and> pushes (delete_remote_branch g bname w) = pushes w
      \<and> requests (delete_remote_branch g bname w) = requests w)"
  by (simp add: create_pr_def create_comment_def delete_remote_branch_def log_msg_def Let_def)

lemma get_installation_token_frame:
  "get_installation_token jwt_encode http zone now now_jwt self installation nm w
     = (r, self1, w1) \<Longrightarrow>
   handlers self1 = handlers self \<and> app_name self1 = app_name self"
  by (auto simp: get_installation_token_def Let_def
           split: prod.splits sum.splits if_splits option.splits
           dest: get_app_jwt_frame)

lemma set_oauth_token_keeps:
  "set_oauth_token h tok = Inr h1 \<Longrightarrow> dry_run h1 = dry_run h \<and> (\<exists>a. api h1 = Some a)"
  by (auto simp: set_oauth_token_def split: option.splits)

lemma new_session_live:
  "\<not> dry_run (create_api_object (GitHubHandler tok False user rp) nm)"
  "\<exists>a. api (create_api_object (GitHubHandler tok False user rp) nm) = Some a"
  by (simp_all add: create_api_object_def GitHubHandler_def)

lemma get_github_api_sessions:
  assumes inv: "\<forall>k h. handlers self k = Some h \<longrightarrow> \<not> dry_run h \<and> api h \<noteq> None"
      and call: "get_github_api jwt_encode http zone now now_jwt self ev w = (r, self1, w1)"
  shows "(\<forall>k h. handlers self1 k = Some h \<longrightarrow> \<not> dry_run h \<and> api h \<noteq> None)
       \<and> (\<forall>h. r = Inr h \<longrightarrow> \<not> dry_run h \<and> api h \<noteq> None)"
  using call inv
  apply (simp add: get_github_api_def Let_def
           split: prod.splits sum.splits if_splits option.splits)
  apply (auto dest!: get_installation_token_frame
              dest: set_oauth_token_keeps set_oauth_token_keeps[OF sym]
              simp: new_session_live split: if_splits)
  done

lemma reachable_sessions:
  "reachable self \<Longrightarrow> \<forall>k h. handlers self k = Some h \<longrightarrow> \<not> dry_run h \<and> api h \<noteq> None"
proof (induction rule: reachable.induct)
  case (created jwt_encode now nm key ident w self w1)
  then have "handlers self = Map.empty"
    by (auto simp: GitHubAppHandler_def split: prod.splits sum.splits dest!: get_app_jwt_frame)
  then show ?case by simp
next
  case (after_jwt self jwt_encode now w r self1 w1)
  from get_app_jwt_frame[OF after_jwt.hyps(2)] after_jwt.IH show ?case by simp
next
  case (after_token self jwt_encode http zone now now_jwt installation nm w r self1 w1)
  from get_installation_token_frame[OF after_token.hyps(2)] after_token.IH show ?case by simp
next
  case (after_api self jwt_encode http zone now now_jwt ev w r self1 w1)
  from get_github_api_sessions[OF after_api.IH after_api.hyps(2)] show ?case by blast
qed

lemma api_request_live:
  "api h = Some a \<Longrightarrow> \<exists>rq. api_request h v u vars dat = Inr rq \<and> verb rq = v \<and> url rq = u"
  by (simp add: api_request_def)

lemma create_pr_real:
  assumes "\<not> dry_run h" and "api h = Some a"
  shows "\<exists>rq. create_pr http h title from_branch from_user to_branch body mcm w
                 = (http rq, send rq
                      (log_msg INFO (''Creating PR '' @ [CHR 0x27] @ ''%s'' @ [CHR 0x27]) [AStr title]
                        (log_msg DEBUG ''PR data %s''
                           [AJson (JObj (pr_data h title from_branch from_user to_branch body mcm))] w)))
              \<and> verb rq = POST \<and> url rq = PULLS"
proof -
  from api_request_live[OF assms(2)] obtain rq where
    "api_request h POST PULLS (var_default h)
       (Some (JObj (pr_data h title from_branch from_user to_branch body mcm))) = Inr rq"
    "verb rq = POST" "url rq = PULLS" by blast
  with assms(1) show ?thesis
    by (intro exI[of _ rq]) (simp add: create_pr_def Let_def)
qed

lemma modify_issue_real:
  assumes "\<not> dry_run h" and "api h = Some a"
  shows "\<exists>rq. modify_issue http h number labels title body w
                 = (http rq, send rq (log_msg INFO ''Modifying PR %s'' [AInt number] w))
              \<and> verb rq = PATCH \<and> url rq = ISSUES"
proof -
  let ?data0 = "if (case labels of None \<Rightarrow> False | Some ls \<Rightarrow> ls \<noteq> [])
                then [(''labels'', JList (map JStr (the labels)))] else []"
  let ?data1 = "if truthy title then AList.update ''title'' (JStr (fmt_opt title)) ?data0
                else ?data0"
  let ?data = "if truthy body then AList.update ''body'' (JStr (fmt_opt body)) ?data1
               else ?data1"
  from api_request_live[OF assms(2)] obtain rq where
    "api_request h PATCH ISSUES
       (AList.update ''number'' (JStr (str_of_int number)) (var_default h))
       (Some (JObj ?data)) = Inr rq"
    "verb rq = PATCH" "url rq = ISSUES" by blast
  with assms(1) show ?thesis
    by (intro exI[of _ rq]) (simp add: modify_issue_def Let_def)
qed

lemma create_comment_real:
  assumes "\<not> dry_run h" and "api h = Some a"
  shows "\<exists>rq. create_comment http h number body w
                 = (case http rq of Inl e \<Rightarrow> Inl e | Inr res \<Rightarrow> subscript res ''id'',
                    send rq (log_msg INFO ''Creating comment on issue #%i'' [AInt number] w))
              \<and> verb rq = POST \<and> url rq = COMMENTS"
proof -
  from api_request_live[OF assms(2)] obtain rq where
    "api_request h POST COMMENTS
       (AList.update ''number'' (JStr (str_of_int number)) (var_default h))
       (Some (JObj [(''body'', JStr body)])) = Inr rq"
    "verb rq = POST" "url rq = COMMENTS" by blast
  with assms(1) show ?thesis
    by (intro exI[of _ rq]) (simp add: create_comment_def Let_def split: sum.splits)
qed

lemma requests_send_log:
  "requests (send rq w) = requests w @ [rq]" "requests (log_msg lv fmt args w) = requests w"
  by (simp_all add: send_def log_msg_def)

text \<open>
  Claim C10. In every state an App handler can reach, every stored session has
  \<open>dry_run = False\<close>; so has the session \<open>get_github_api\<close> returns, and
  \<open>create_pr\<close>, \<open>modify_issue\<close> and \<open>create_comment\<close> through it each issue
  one request (the first two returning the backend's answer to it).
\<close>

theorem app_sessions_never_dry_run:
  assumes "reachable self"
  shows "(\<forall>k h. handlers self k = Some h \<longrightarrow> dry_run h = False)
       \<and> (\<forall>jwt_encode http zone now now_jwt ev w h self1 w1.
            get_github_api jwt_encode http zone now now_jwt self ev w = (Inr h, self1, w1) \<longrightarrow>
              dry_run h = False
              \<and> (\<forall>rest title from_branch from_user to_branch body mcm w2.
                   \<exists>rq. create_pr rest h title from_branch from_user to_branch body mcm w2
                          = (rest rq, snd (create_pr rest h title from_branch from_user to_branch
                                             body mcm w2))
                      \<and> requests (snd (create_pr rest h title from_branch from_user to_branch
                                           body mcm w2)) = requests w2 @ [rq])
              \<and> (\<forall>rest number labels title body w2.
                   \<exists>rq. modify_issue rest h number labels title body w2
                          = (rest rq, snd (modify_issue rest h number labels title body w2))
                      \<and> requests (snd (modify_issue rest h number labels title body w2))
                          = requests w2 @ [rq])
              \<and> (\<forall>rest number body w2.
                   \<exists>rq. requests (snd (create_comment rest h number body w2))
                          = requests w2 @ [rq]))"
proof -
  from reachable_sessions[OF assms]
  have inv: "\<forall>k h. handlers self k = Some h \<longrightarrow> \<not> dry_run h \<and> api h \<noteq> None" .
  have stored: "\<forall>k h. handlers self k = Some h \<longrightarrow> dry_run h = False"
    using inv by blast
  have returned: "dry_run h = False
              \<and> (\<forall>rest title from_branch from_user to_branch body mcm w2.
                   \<exists>rq. create_pr rest h title from_branch from_user to_branch body mcm w2
                          = (rest rq, snd (create_pr rest h title from_branch from_user to_branch
                                             body mcm w2))
                      \<and> requests (snd (create_pr rest h title from_branch from_user to_branch
                                           body mcm w2)) = requests w2 @ [rq])
              \<and> (\<forall>rest number labels title body w2.
                   \<exists>rq. modify_issue rest h number labels title body w2
                          = (rest rq, snd (modify_issue rest h number labels title body w2))
                      \<and> requests (snd (modify_issue rest h number labels title body w2))
                          = requests w2 @ [rq])
              \<and> (\<forall>rest number body w2.
                   \<exists>rq. requests (snd (create_comment rest h number body w2))
                          = requests w2 @ [rq])"
    if call: "get_github_api jwt_encode http zone now now_jwt self ev w = (Inr h, self1, w1)"
    for jwt_encode http zone now now_jwt ev w h self1 w1
  proof -
    from get_github_api_sessions[OF inv call] obtain a where
      live: "\<not> dry_run h" "api h = Some a" by auto
    have pr: "\<exists>rq. create_pr rest h title from_branch from_user to_branch body mcm w2
                          = (rest rq, snd (create_pr rest h title from_branch from_user to_branch
                                             body mcm w2))
                      \<and> requests (snd (create_pr rest h title from_branch from_user to_branch
                                           body mcm w2)) = requests w2 @ [rq]"
      for rest title from_branch from_user to_branch body mcm w2
      using create_pr_real[OF live, of rest title from_branch from_user to_branch body mcm w2]
      by (auto simp: requests_send_log)
    have mi: "\<exists>rq. modify_issue rest h number labels title body w2
                          = (rest rq, snd (modify_issue rest h number labels title body w2))
                      \<and> requests (snd (modify_issue rest h number labels title body w2))
                          = requests w2 @ [rq]"
      for rest number labels title body w2
      using modify_issue_real[OF live, of rest number labels title body w2]
      by (auto simp: requests_send_log)
    have cc: "\<exists>rq. requests (snd (create_comment rest h number body w2)) = requests w2 @ [rq]"
      for rest number body w2
      using create_comment_real[OF live, of rest number body w2]
      by (auto simp: requests_send_log)
    from live(1) pr mi cc show ?thesis by blast
  qed
  from stored returned show ?thesis by blast
qed

lemmas eval_isotime = parse_isotime_def strptime_iso_def dig_def int_of_digits_def
  days_in_month_def is_leap_def mktime_def fixed_zone_def timegm_def days_from_civil_def
  lstrip_def Let_def

theorem app_sessions_never_dry_run_witness:
  "reachable \<lparr>app_name = ''bot'', app_key = ''key'', app_id = ''42'', jwt = (1600, ''jwt1''),
             tokens = Map.empty, handlers = Map.empty\<rparr>
   \<and> fst (get_github_api (\<lambda>p k a. Inr ''jwt1'')
            (replies (Inr \<lparr>resp_expires_at = ''2019-03-01T12:00:00Z'', resp_token = ''v1.abc''\<rparr>))
            (fixed_zone 0) 1010 1010
            \<lparr>app_name = ''bot'', app_key = ''key'', app_id = ''42'', jwt = (1600, ''jwt1''),
             tokens = Map.empty, handlers = Map.empty\<rparr>
            \<lparr>event_type = ''pull_request'',
             data = JObj [(''installation'', JObj [(''id'', JInt 5)]),
                          (''repository'', JObj [(''owner'', JObj [(''login'', JStr ''acme'')]),
                                                 (''name'', JStr ''widgets'')])]\<rparr>
            \<lparr>logs = [], requests = [], pushes = []\<rparr>)
       = Inr (create_api_object (GitHubHandler ''v1.abc'' False (JStr ''acme'') (JStr ''widgets''))
                ''bot'')
   \<and> dry_run (create_api_object (GitHubHandler ''v1.abc'' False (JStr ''acme'') (JStr ''widgets''))
                ''bot'') = False"
proof -
  let ?sign = "\<lambda>p k a. Inr ''jwt1'' :: exn + string"
  let ?http = "replies (Inr \<lparr>resp_expires_at = ''2019-03-01T12:00:00Z'', resp_token = ''v1.abc''\<rparr>)
                 :: request \<Rightarrow> exn + token_response"
  let ?S = "\<lparr>app_name = ''bot'', app_key = ''key'', app_id = ''42'', jwt = (1600, ''jwt1''),
             tokens = Map.empty, handlers = Map.empty\<rparr>"
  let ?ev = "\<lparr>event_type = ''pull_request'',
             data = JObj [(''installation'', JObj [(''id'', JInt 5)]),
                          (''repository'', JObj [(''owner'', JObj [(''login'', JStr ''acme'')]),
                                                 (''name'', JStr ''widgets'')])]\<rparr>"
  let ?W = "\<lparr>logs = [], requests = [], pushes = []\<rparr>"
  let ?H = "create_api_object (GitHubHandler ''v1.abc'' False (JStr ''acme'') (JStr ''widgets''))
                ''bot''"
  have "GitHubAppHandler ?sign 1000 ''bot'' ''key'' ''42'' ?W
          = (Inr ?S, log_msg INFO ''%s JWT valid for %i minutes''
                       [AStr ''Created new'', AQuot 600 60] ?W)"
    by (simp add: GitHubAppHandler_def get_app_jwt_def JWT_RENEW_PERIOD_def decode_utf8_def)
  then have r: "reachable ?S" by (rule reachable.created)
  have f: "fst (get_github_api ?sign ?http (fixed_zone 0) 1010 1010 ?S ?ev ?W) = Inr ?H"
    by (simp add: get_github_api_def event_get_def get_installation_token_def get_app_jwt_def
          token_request_def replies_def eval_isotime)
  have call: "get_github_api ?sign ?http (fixed_zone 0) 1010 1010 ?S ?ev ?W
         = (Inr ?H, fst (snd (get_github_api ?sign ?http (fixed_zone 0) 1010 1010 ?S ?ev ?W)),
            snd (snd (get_github_api ?sign ?http (fixed_zone 0) 1010 1010 ?S ?ev ?W)))"
    using f by (metis prod.collapse)
  from app_sessions_never_dry_run[OF r] call have "dry_run ?H = False" by blast
  with r f show ?thesis by blast
qed

theorem dry_run_leaves_remote_alone_witness:
  "create_pr (replies (Inl ClientError))
     (create_api_object (GitHubHandler ''t0'' True (JStr ''bioconda'') (JStr ''bioconda-recipes''))
        ''bot'')
     ''Update samtools'' (Some ''bump/samtools'') None (Some ''master'') None True
     \<lparr>logs = [], requests = [], pushes = []\<rparr>
   = (Inr (JObj [(''number'', JInt (- 1))]),
      \<lparr>logs = [(DEBUG, ''PR data %s'',
                 [AJson (JObj [(''title'', JStr ''Update samtools''), (''body'', JStr []),
                               (''maintainer_can_modify'', JBool True),
                               (''head'', JStr ''bump/samtools''), (''base'', JStr ''master'')])]),
                (INFO, ''Would create PR '' @ [CHR 0x27] @ ''%s'' @ [CHR 0x27],
                 [AStr ''Update samtools''])],
       requests = [], pushes = []\<rparr>)
   \<and> create_comment (replies (Inl ClientError))
     (create_api_object (GitHubHandler ''t0'' True (JStr ''bioconda'') (JStr ''bioconda-recipes''))
        ''bot'')
     12 ''hello'' \<lparr>logs = [], requests = [], pushes = []\<rparr>
   = (Inr (JInt (- 1)),
      \<lparr>logs = [(INFO, ''Would create comment on issue #%i'', [AInt 12])],
       requests = [], pushes = []\<rparr>)
   \<and> delete_remote_branch
     \<lparr>repo = \<lparr>working_dir = ''/srv/recipes'', remotes = [], worktree = [], index = [],
              commits = []\<rparr>,
      dry_run = True,
      home_remote = \<lparr>name = ''origin'', urls = []\<rparr>,
      fork_remote = \<lparr>name = ''origin'', urls = []\<rparr>\<rparr>
     ''bump/samtools'' \<lparr>logs = [], requests = [], pushes = []\<rparr>
   = \<lparr>logs = [(INFO, ''Would delete branch %s'', [AStr ''bump/samtools''])],
      requests = [], pushes = []\<rparr>"
proof -
  let ?h = "create_api_object (GitHubHandler ''t0'' True (JStr ''bioconda'') (JStr ''bioconda-recipes''))
        ''bot''"
  let ?g = "\<lparr>repo = \<lparr>working_dir = ''/srv/recipes'', remotes = [], worktree = [], index = [],
              commits = []\<rparr>,
      git_handler.dry_run = True,
      home_remote = \<lparr>name = ''origin'', urls = []\<rparr>,
      fork_remote = \<lparr>name = ''origin'', urls = []\<rparr>\<rparr>"
  have d: "dry_run ?h" by (simp add: create_api_object_def GitHubHandler_def)
  have e: "git_handler.dry_run ?g" by simp
  from dry_run_leaves_remote_alone[where h = ?h and g = ?g and http = "replies (Inl ClientError)"
         and title = "''Update samtools''" and from_branch = "Some ''bump/samtools''"
         and from_user = None and to_branch = "Some ''master''" and body = None
         and maintainer_can_modify = True and w = "\<lparr>logs = [], requests = [], pushes = []\<rparr>"
         and number = 12 and comment = "''hello''" and bname = "''bump/samtools''"] d e
  show ?thesis
    by (simp add: log_msg_def pr_data_def create_api_object_def GitHubHandler_def Let_def)
qed

theorem get_installation_token_cache_witness:
  "get_installation_token (\<lambda>p k a. Inr ''jwt1'')
     (replies (Inr \<lparr>resp_expires_at = ''2019-03-01T12:00:00Z'', resp_token = ''v1.abc''\<rparr>))
     (fixed_zone 0) 1551438000 1551438000
     \<lparr>app_name = ''bot'', app_key = ''key'', app_id = ''42'', jwt = (1551438500, ''jwt0''),
      tokens = Map.empty, handlers = Map.empty\<rparr>
     (JStr ''123'') None \<lparr>logs = [], requests = [], pushes = []\<rparr>
   = (Inr ''v1.abc'',
      \<lparr>app_name = ''bot'', app_key = ''key'', app_id = ''42'', jwt = (1551438500, ''jwt0''),
       tokens = [JStr ''123'' \<mapsto> (1551441600, ''v1.abc'')], handlers = Map.empty\<rparr>,
      \<lparr>logs = [(INFO, ''%s JWT valid for %i minutes'', [AStr ''Reusing'', AQuot 500 60]),
                (INFO, ''%s token for %i valid for %i minutes'',
                 [AStr ''Created new'', AJson (JStr ''123''), AQuot 3600 60])],
       requests = [\<lparr>verb = POST, url = ''/app/installations/{installation_id}/access_tokens'',
                   url_vars = [(''installation_id'', JStr ''123'')], payload = Some (JStr []),
                   accept = Some ''application/vnd.github.machine-man-preview+json'',
                   auth_jwt = Some ''jwt0'', auth_oauth = None\<rparr>], pushes = []\<rparr>)
   \<and> fst (get_installation_token (\<lambda>p k a. Inr ''jwt1'')
     (replies (Inl ClientError))
     (fixed_zone 0) 1551441540 1551441540
     \<lparr>app_name = ''bot'', app_key = ''key'', app_id = ''42'', jwt = (1551438500, ''jwt0''),
      tokens = [JStr ''123'' \<mapsto> (1551441600, ''v1.abc'')], handlers = Map.empty\<rparr>
     (JStr ''123'') None \<lparr>logs = [], requests = [], pushes = []\<rparr>) = Inr ''v1.abc''"
proof -
  let ?sign = "\<lambda>p k a. Inr ''jwt1'' :: exn + string"
  let ?res = "\<lparr>resp_expires_at = ''2019-03-01T12:00:00Z'', resp_token = ''v1.abc''\<rparr>"
  let ?S = "\<lparr>app_name = ''bot'', app_key = ''key'', app_id = ''42'', jwt = (1551438500, ''jwt0''),
      tokens = Map.empty, handlers = Map.empty\<rparr>"
  let ?S1 = "\<lparr>app_name = ''bot'', app_key = ''key'', app_id = ''42'', jwt = (1551438500, ''jwt0''),
      tokens = [JStr ''123'' \<mapsto> (1551441600, ''v1.abc'')], handlers = Map.empty\<rparr>"
  let ?W = "\<lparr>logs = [], requests = [], pushes = []\<rparr>"
  have k: "hashable (JStr ''123'')" by simp
  have j: "get_app_jwt ?sign 1551438000 ?S ?W
             = (Inr ''jwt0'', ?S,
                log_msg INFO ''%s JWT valid for %i minutes'' [AStr ''Reusing'', AQuot 500 60] ?W)"
    by (simp add: get_app_jwt_def)
  have h: "replies (Inr ?res) (\<lparr>verb = POST, url = ''/app/installations/{installation_id}/access_tokens'',
                   url_vars = [(''installation_id'', JStr ''123'')], payload = Some (JStr []),
                   accept = Some ''application/vnd.github.machine-man-preview+json'',
                   auth_jwt = Some ''jwt0'', auth_oauth = None\<rparr>) = (Inr ?res :: exn + token_response)"
    by (simp add: replies_def)
  have p: "parse_isotime (fixed_zone 0) (resp_expires_at ?res) = Inr 1551441600"
    by (simp add: eval_isotime)
  have m: "tokens ?S (JStr ''123'') = None" by simp
  from get_installation_token_cache[OF k, where self = ?S and now = 1551438000
         and now_jwt = 1551438000 and jwt_encode = ?sign and w = ?W and j = "''jwt0''"
         and ?self1.0 = ?S and http = "replies (Inr ?res)" and res = ?res and zone = "fixed_zone 0"
         and ?e1.0 = 1551441600 and nm = None] m j h p
  obtain w2 where
    a: "get_installation_token ?sign (replies (Inr ?res)) (fixed_zone 0) 1551438000 1551438000 ?S
          (JStr ''123'') None ?W
        = (Inr ''v1.abc'', ?S1, w2)"
    by auto
  then have a': "get_installation_token ?sign (replies (Inr ?res)) (fixed_zone 0) 1551438000 1551438000 ?S
          (JStr ''123'') None ?W
        = (Inr ''v1.abc'', ?S1,
           \<lparr>logs = [(INFO, ''%s JWT valid for %i minutes'', [AStr ''Reusing'', AQuot 500 60]),
                (INFO, ''%s token for %i valid for %i minutes'',
                 [AStr ''Created new'', AJson (JStr ''123''), AQuot 3600 60])],
       requests = [\<lparr>verb = POST, url = ''/app/installations/{installation_id}/access_tokens'',
                   url_vars = [(''installation_id'', JStr ''123'')], payload = Some (JStr []),
                   accept = Some ''application/vnd.github.machine-man-preview+json'',
                   auth_jwt = Some ''jwt0'', auth_oauth = None\<rparr>], pushes = []\<rparr>)"
    by (simp add: get_installation_token_def get_app_jwt_def replies_def eval_isotime
          token_request_def INSTALLATION_TOKEN_def
          log_msg_def send_def)
  have c: "tokens ?S1 (JStr ''123'') = Some (1551441600, ''v1.abc'')" by simp
  from get_installation_token_cache[OF k, where self = ?S1 and now = 1551441540
         and now_jwt = 1551441540 and jwt_encode = ?sign and w = ?W
         and http = "replies (Inl ClientError)" and zone = "fixed_zone 0"
         and e = 1551441600 and t = "''v1.abc''" and nm = None] c
  have b: "fst (get_installation_token ?sign (replies (Inl ClientError)) (fixed_zone 0) 1551441540 1551441540
             ?S1 (JStr ''123'') None ?W) = Inr ''v1.abc''"
    by auto
  from a' b show ?thesis by simp
qed

text \<open>
  Claim C9 fails on the code: in a process whose local zone is one hour east of UTC
  (\<^verbatim>\<open>time.timezone\<close> is \<open>-3600\<close>), the UTC time stamp of noon is converted to the
  epoch seconds of 11:00 UTC, an hour before the instant it names.
\<close>

theorem parse_isotime_reads_local_time:
  "parse_isotime (fixed_zone (- 3600)) ''2019-03-01T12:00:00Z'' = Inr 1551438000
   \<and> strptime_iso ''2019-03-01T12:00:00''
       = Inr \<lparr>tm_year = 2019, tm_mon = 3, tm_mday = 1, tm_hour = 12, tm_min = 0, tm_sec = 0\<rparr>
   \<and> timegm \<lparr>tm_year = 2019, tm_mon = 3, tm_mday = 1, tm_hour = 12, tm_min = 0, tm_sec = 0\<rparr>
       = 1551441600"
  by (simp add: eval_isotime)

text \<open>A non-empty time stamp that does not end in \<^verbatim>\<open>Z\<close> is rejected as it is.\<close>

lemma parse_isotime_rejects_non_utc:
  assumes "timestr \<noteq> []" and "last timestr \<noteq> CHR ''Z''"
  shows "parse_isotime zone timestr
           = Inl (ValueError (''Time String '' @ [CHR 0x27] @ ''%s'' @ [CHR 0x27] @ '' not in UTC''))"
  using assms by (simp add: parse_isotime_def)

lemma parse_isotime_rejects_non_utc_witness:
  "parse_isotime (fixed_zone 0) ''2019-03-01T12:00:00+01:00''
     = Inl (ValueError (''Time String '' @ [CHR 0x27] @ ''%s'' @ [CHR 0x27] @ '' not in UTC''))"
proof -
  have a: "''2019-03-01T12:00:00+01:00'' \<noteq> []" by simp
  have b: "last ''2019-03-01T12:00:00+01:00'' \<noteq> CHR ''Z''" by simp
  from parse_isotime_rejects_non_utc[OF a b] show ?thesis .
qed

text \<open>
  A time stamp that parses is converted to its UTC epoch seconds plus what the local
  zone lies west of UTC at that wall-clock reading: the result is the instant the time
  stamp names exactly when that is zero.
\<close>

lemma parse_isotime_offset:
  assumes "timestr \<noteq> []" and "last timestr = CHR ''Z''"
      and "strptime_iso (butlast timestr) = Inr t"
  shows "parse_isotime zone timestr = Inr (timegm t + zone (timegm t))"
  using assms by (simp add: parse_isotime_def mktime_def)

lemma parse_isotime_offset_witness:
  "parse_isotime (fixed_zone 0) ''2016-07-11T22:14:10Z'' = Inr 1468275250"
proof -
  have a: "''2016-07-11T22:14:10Z'' \<noteq> []" by simp
  have b: "last ''2016-07-11T22:14:10Z'' = CHR ''Z''" by simp
  have c: "strptime_iso (butlast ''2016-07-11T22:14:10Z'')
             = Inr \<lparr>tm_year = 2016, tm_mon = 7, tm_mday = 11, tm_hour = 22, tm_min = 14,
                    tm_sec = 10\<rparr>"
    by (simp add: eval_isotime)
  from parse_isotime_offset[OF a b c, of "fixed_zone 0"] show ?thesis
    by (simp add: eval_isotime)
qed

text \<open>
  In a zone with daylight saving the offset is the one in effect at the reading: where
  noon of 1 July 2019 is summer time two hours east of UTC, the time stamp of that noon
  is converted to the epoch seconds of 10:00 UTC.
\<close>

lemma parse_isotime_summer_time:
  assumes "zone 1561982400 = - 7200"
  shows "parse_isotime zone ''2019-07-01T12:00:00Z'' = Inr 1561975200"
  using assms by (simp add: eval_isotime)

end
